theory Spec2Isabelle
  imports Complex_Main "HOL-Library.AList" "HOL-Library.Sublist"
begin

section \<open>Status mapper\<close>

text \<open>
  The consumer-side state enums of the kubelet runtime API. Only the constants that the
  source returns are modelled.
\<close>

datatype PodSandBoxState = PodSandBoxState_READY | PodSandBoxState_NOTREADY

datatype ContainerState =
    ContainerState_CREATED
  | ContainerState_RUNNING
  | ContainerState_EXITED
  | ContainerState_UNKNOWN

text \<open>
  \<open>toPodSandboxState\<close> appears twice in the source, once behind each entry surface
  (package manager and package hyper); the two bodies are the same text. Go strings are byte
  strings and \<open>==\<close> compares them byte by byte, as equality on \<^typ>\<open>string\<close> does.
\<close>

definition toPodSandboxState :: "string \<Rightarrow> PodSandBoxState" where
  "toPodSandboxState state =
     (if state = ''running'' \<or> state = ''Running'' then PodSandBoxState_READY
      else PodSandBoxState_NOTREADY)"

text \<open>
  \<open>toKubeContainerState\<close> is a \<open>switch\<close> on the phase string; the cases are tried in the
  order of the source and the \<open>default\<close> branch is last.
\<close>

definition toKubeContainerState :: "string \<Rightarrow> ContainerState" where
  "toKubeContainerState state =
     (if state = ''running'' then ContainerState_RUNNING
      else if state = ''pending'' then ContainerState_CREATED
      else if state = ''failed'' \<or> state = ''succeeded'' then ContainerState_EXITED
      else ContainerState_UNKNOWN)"

section \<open>Byte strings\<close>

text \<open>
  The functions of Go's \<open>strings\<close> package that the source calls. Every separator the
  source passes is a one-byte literal (\<open>@\<close>, \<open>:\<close>, \<open>/\<close>), so the separator is a
  \<^typ>\<open>char\<close> here. \<open>strings.Index\<close> and \<open>strings.LastIndex\<close> return the byte offset of the
  first and of the last occurrence, and \<open>-1\<close> when there is none; \<open>strings.Contains\<close> is
  \<open>Index >= 0\<close>; \<open>strings.Split\<close> cuts at every occurrence and returns one piece more than
  there are separators (one empty piece for the empty string).
\<close>

fun strings_Index :: "string \<Rightarrow> char \<Rightarrow> int" where
  "strings_Index [] sep = - 1"
| "strings_Index (x # xs) sep =
     (if x = sep then 0
      else (let n = strings_Index xs sep in if n < 0 then - 1 else n + 1))"

fun strings_LastIndex :: "string \<Rightarrow> char \<Rightarrow> int" where
  "strings_LastIndex [] sep = - 1"
| "strings_LastIndex (x # xs) sep =
     (let n = strings_LastIndex xs sep in
      if 0 \<le> n then n + 1 else if x = sep then 0 else - 1)"

definition strings_Contains :: "string \<Rightarrow> char \<Rightarrow> bool" where
  "strings_Contains s sep = (0 \<le> strings_Index s sep)"

fun strings_Split :: "string \<Rightarrow> char \<Rightarrow> string list" where
  "strings_Split [] sep = [[]]"
| "strings_Split (x # xs) sep =
     (if x = sep then [] # strings_Split xs sep
      else (case strings_Split xs sep of
              [] \<Rightarrow> [[x]]
            | p # ps \<Rightarrow> (x # p) # ps))"

text \<open>\<open>strings.TrimPrefix(s, prefix)\<close>: \<open>s\<close> without the prefix when it starts with it.\<close>

definition strings_TrimPrefix :: "string \<Rightarrow> string \<Rightarrow> string" where
  "strings_TrimPrefix s pre =
     (if take (length pre) s = pre then drop (length pre) s else s)"

text \<open>
  Indexing and slicing panic in Go when they leave the range; the panic is a value of the
  model, so that a function is total only if it is proved to be.
\<close>

datatype panic = IndexOutOfRange | SliceBoundsOutOfRange

definition slice_from :: "string \<Rightarrow> int \<Rightarrow> panic + string" where
  "slice_from s i =
     (if 0 \<le> i \<and> i \<le> int (length s) then Inr (drop (nat i) s)
      else Inl SliceBoundsOutOfRange)"

definition slice_to :: "string \<Rightarrow> int \<Rightarrow> panic + string" where
  "slice_to s i =
     (if 0 \<le> i \<and> i \<le> int (length s) then Inr (take (nat i) s)
      else Inl SliceBoundsOutOfRange)"

text \<open>\<open>inList\<close> checks if a string is in a list (both packages carry the same text).\<close>

fun inList :: "string \<Rightarrow> string list \<Rightarrow> bool" where
  "inList i [] = False"
| "inList i (str # list) = (if i = str then True else inList i list)"

text \<open>
  A Go \<open>map[string]string\<close> is modelled by the list of its entries, read with
  \<^const>\<open>map_of\<close>. \<open>inMap\<close> ranges over the entries of \<open>in\<close> and fails at the first one
  that \<open>dest\<close> lacks or maps to another value.
\<close>

type_synonym string_map = "(string \<times> string) list"

fun inMap :: "string_map \<Rightarrow> string_map \<Rightarrow> bool" where
  "inMap [] dest = True"
| "inMap ((k, v) # rest) dest =
     (case map_of dest k of
        Some val \<Rightarrow> if val \<noteq> v then False else inMap rest dest
      | None \<Rightarrow> False)"

section \<open>Reference parser\<close>

text \<open>
  \<open>parseRepositoryTag\<close> (the same text in both packages). \<open>parts[0]\<close>, \<open>parts[1]\<close>,
  \<open>repos[n+1:]\<close> and \<open>repos[:n]\<close> are the places where it could panic.
\<close>

definition parseRepositoryTag :: "string \<Rightarrow> panic + (string \<times> string)" where
  "parseRepositoryTag repos =
     (let n = strings_Index repos CHR ''@'' in
      if 0 \<le> n then
        (let parts = strings_Split repos CHR ''@'' in
         if length parts \<le> 1 then Inl IndexOutOfRange
         else Inr (parts ! 0, parts ! 1))
      else
        (let n = strings_LastIndex repos CHR '':'' in
         if n < 0 then Inr (repos, ''latest'')
         else
           (case slice_from repos (n + 1) of
              Inl p \<Rightarrow> Inl p
            | Inr tag \<Rightarrow>
                if \<not> strings_Contains tag CHR ''/'' then
                  (case slice_to repos n of
                     Inl p \<Rightarrow> Inl p
                   | Inr repo \<Rightarrow> Inr (repo, tag))
                else Inr (repos, ''latest''))))"

text \<open>
  The reference definition that the specification gives in words, written without the
  functions above: with an \<open>@\<close>, the text before the first \<open>@\<close> and the text between the
  first and the second \<open>@\<close> (up to the end when there is no second one); without an \<open>@\<close>
  and without a \<open>:\<close>, the reference and \<open>latest\<close>; otherwise the text after the last
  \<open>:\<close> decides: with a \<open>/\<close> in it the reference and \<open>latest\<close>, else the two sides of
  that \<open>:\<close>.
\<close>

definition parseRepositoryTag_reference :: "string \<Rightarrow> string \<times> string" where
  "parseRepositoryTag_reference ref =
     (if CHR ''@'' \<in> set ref then
        (takeWhile (\<lambda>c. c \<noteq> CHR ''@'') ref,
         takeWhile (\<lambda>c. c \<noteq> CHR ''@'') (tl (dropWhile (\<lambda>c. c \<noteq> CHR ''@'') ref)))
      else if CHR '':'' \<notin> set ref then (ref, ''latest'')
      else
        (let suffix = rev (takeWhile (\<lambda>c. c \<noteq> CHR '':'') (rev ref)) in
         if CHR ''/'' \<in> set suffix then (ref, ''latest'')
         else (rev (tl (dropWhile (\<lambda>c. c \<noteq> CHR '':'') (rev ref))), suffix)))"

text \<open>
  The consumer-side \<open>kubeapi.AuthConfig\<close> has optional (pointer) fields; the provider-side
  \<open>types.AuthConfig\<close> has plain string fields whose zero value is the empty string. Only the
  fields that the source assigns are modelled. The result of the translation is a pointer,
  hence an option: \<open>None\<close> is Go's \<open>nil\<close>.
\<close>

record kubeapi_AuthConfig =
  ka_Username :: "string option"
  ka_Password :: "string option"
  ka_Auth :: "string option"
  ka_ServerAddress :: "string option"
  ka_RegistryToken :: "string option"

record types_AuthConfig =
  ta_Username :: string
  ta_Password :: string
  ta_Auth :: string
  ta_Serveraddress :: string
  ta_Registrytoken :: string

text \<open>\<open>&types.AuthConfig{}\<close>: every field at its zero value.\<close>

definition types_AuthConfig_zero :: types_AuthConfig where
  "types_AuthConfig_zero =
     \<lparr>ta_Username = [], ta_Password = [], ta_Auth = [], ta_Serveraddress = [],
      ta_Registrytoken = []\<rparr>"

text \<open>
  \<open>getHyperAuthConfig\<close> of package manager (the RPC-server surface): \<open>nil\<close> for \<open>nil\<close>;
  otherwise five guarded assignments to a fresh \<open>config\<close>, in the order of the source.
  Inside a guard the accessor returns the value the pointer holds.
\<close>

definition manager_getHyperAuthConfig ::
  "kubeapi_AuthConfig option \<Rightarrow> types_AuthConfig option" where
  "manager_getHyperAuthConfig auth =
     (case auth of
        None \<Rightarrow> None
      | Some a \<Rightarrow>
           (let config = types_AuthConfig_zero;
                config = (case ka_Username a of
                            Some u \<Rightarrow> config\<lparr>ta_Username := u\<rparr> | None \<Rightarrow> config);
                config = (case ka_Password a of
                            Some p \<Rightarrow> config\<lparr>ta_Password := p\<rparr> | None \<Rightarrow> config);
                config = (case ka_Auth a of
                            Some x \<Rightarrow> config\<lparr>ta_Auth := x\<rparr> | None \<Rightarrow> config);
                config = (case ka_RegistryToken a of
                            Some t \<Rightarrow> config\<lparr>ta_Registrytoken := t\<rparr> | None \<Rightarrow> config);
                config = (case ka_ServerAddress a of
                            Some x \<Rightarrow> config\<lparr>ta_Serveraddress := x\<rparr> | None \<Rightarrow> config)
            in Some config))"

text \<open>
  \<open>getHyperAuthConfig\<close> of package hyper (the direct-call surface): an empty config for
  \<open>nil\<close>; the rest is the same text.
\<close>

definition hyper_getHyperAuthConfig ::
  "kubeapi_AuthConfig option \<Rightarrow> types_AuthConfig option" where
  "hyper_getHyperAuthConfig auth =
     (case auth of
        None \<Rightarrow> Some types_AuthConfig_zero
      | Some a \<Rightarrow>
           (let config = types_AuthConfig_zero;
                config = (case ka_Username a of
                            Some u \<Rightarrow> config\<lparr>ta_Username := u\<rparr> | None \<Rightarrow> config);
                config = (case ka_Password a of
                            Some p \<Rightarrow> config\<lparr>ta_Password := p\<rparr> | None \<Rightarrow> config);
                config = (case ka_Auth a of
                            Some x \<Rightarrow> config\<lparr>ta_Auth := x\<rparr> | None \<Rightarrow> config);
                config = (case ka_RegistryToken a of
                            Some t \<Rightarrow> config\<lparr>ta_Registrytoken := t\<rparr> | None \<Rightarrow> config);
                config = (case ka_ServerAddress a of
                            Some x \<Rightarrow> config\<lparr>ta_Serveraddress := x\<rparr> | None \<Rightarrow> config)
            in Some config))"

section \<open>Timestamps\<close>

text \<open>
  Go errors are values that carry a message.
\<close>

datatype error = Error string

text \<open>
  \<open>parseTimeString\<close> (the same text in both packages) rests on Go's \<open>time\<close> package, which
  is not part of the repository: \<open>time.Date\<close>, \<open>time.Local\<close>, \<open>time.Parse\<close> and the method
  \<open>Unix\<close> are parameters of the model, collected in a record. \<open>time.Parse\<close> returns a time
  and an error; \<open>Unix\<close> is an \<open>int64\<close>.
\<close>

record ('t, 'l) time_package =
  time_Date :: "int \<Rightarrow> int \<Rightarrow> int \<Rightarrow> int \<Rightarrow> int \<Rightarrow> int \<Rightarrow> int \<Rightarrow> 'l \<Rightarrow> 't"
  time_Local :: 'l
  time_Parse :: "string \<Rightarrow> string \<Rightarrow> 't \<times> error option"
  time_Unix :: "'t \<Rightarrow> int"

definition parseTimeString :: "('t, 'l) time_package \<Rightarrow> string \<Rightarrow> int \<times> error option" where
  "parseTimeString T str =
     (let t = time_Date T 0 0 0 0 0 0 0 (time_Local T) in
      if str = [] then (time_Unix T t, None)
      else
        (let layout = ''2006-01-02T15:04:05Z'';
             (t, err) = time_Parse T layout str
         in if err \<noteq> None then (time_Unix T t, err)
            else (time_Unix T t, None)))"

subsection \<open>The \<open>time\<close> package of the Go library\<close>

text \<open>
  What \<open>parseTimeString\<close> returns for a given string is decided by the library. The
  following definitions model the package for the two calls that the source makes,
  \<open>time.Date(0, 0, 0, 0, 0, 0, 0, time.Local)\<close> and \<open>time.Parse\<close> with the layout
  \<open>2006-01-02T15:04:05Z\<close>, after the package's documentation and the source of its current
  release (\<open>time/format.go\<close>, \<open>time/time.go\<close>); the functions carry the library's names.

  \<open>isDigit\<close> tests for a decimal digit; the value of a digit \<open>c\<close> is \<open>c - '0'\<close>.
\<close>

definition isDigit :: "char \<Rightarrow> bool" where
  "isDigit c = (c \<in> set ''0123456789'')"

definition digit_value :: "char \<Rightarrow> int" where
  "digit_value c = int (of_char c) - 48"

text \<open>
  \<open>getnum\<close> reads a number of one or two digits from the head of the value and returns it
  with the rest of the value; with \<open>fixed\<close> it insists on two digits. \<open>None\<close> stands for the
  error \<open>errBad\<close>.
\<close>

fun getnum :: "string \<Rightarrow> bool \<Rightarrow> (int \<times> string) option" where
  "getnum [] fixed = None"
| "getnum [a] fixed = (if isDigit a \<and> \<not> fixed then Some (digit_value a, []) else None)"
| "getnum (a # b # s) fixed =
     (if \<not> isDigit a then None
      else if \<not> isDigit b then (if fixed then None else Some (digit_value a, b # s))
      else Some (digit_value a * 10 + digit_value b, s))"

text \<open>
  The year of the layout element \<open>2006\<close>: the value must have four bytes, the first of
  them a digit, and \<open>atoi\<close> must read the four as a number, which it does when all are
  digits.
\<close>

fun stdLongYear :: "string \<Rightarrow> (int \<times> string) option" where
  "stdLongYear (a # b # c # d # s) =
     (if isDigit a \<and> isDigit b \<and> isDigit c \<and> isDigit d
      then Some (((digit_value a * 10 + digit_value b) * 10 + digit_value c) * 10 + digit_value d, s)
      else None)"
| "stdLongYear s = None"

text \<open>
  \<open>skip\<close> removes a literal prefix of the layout from the value. (The library treats a
  space in the prefix specially; the prefixes of this layout, \<open>-\<close>, \<open>T\<close>, \<open>:\<close> and \<open>Z\<close>,
  have none.)
\<close>

fun skip :: "string \<Rightarrow> string \<Rightarrow> string option" where
  "skip v [] = Some v"
| "skip [] (p # ps) = None"
| "skip (x # v) (p # ps) = (if x \<noteq> p then None else skip v ps)"

text \<open>
  The documentation of \<open>Parse\<close>: ``When parsing (only), the input may contain a fractional
  second field immediately after the seconds field, even if the layout does not signify its
  presence.'' After the seconds, a period or comma followed by a digit starts such a field;
  it extends over all the digits that follow. \<open>fractional_second\<close> returns the value after
  the field. The field sets only the nanoseconds of the time, which \<open>Unix\<close> does not read.
\<close>

definition commaOrPeriod :: "char \<Rightarrow> bool" where
  "commaOrPeriod c = (c = CHR ''.'' \<or> c = CHR '','')"

fun fractional_second :: "string \<Rightarrow> string" where
  "fractional_second (p # d # s) =
     (if commaOrPeriod p \<and> isDigit d then dropWhile isDigit s else p # d # s)"
| "fractional_second s = s"

text \<open>The calendar: leap years, and the days before and in a month.\<close>

definition isLeap :: "int \<Rightarrow> bool" where
  "isLeap year = (year mod 4 = 0 \<and> (year mod 100 \<noteq> 0 \<or> year mod 400 = 0))"

definition daysBefore :: "int list" where
  "daysBefore = [0, 31, 59, 90, 120, 151, 181, 212, 243, 273, 304, 334, 365]"

definition daysIn :: "int \<Rightarrow> int \<Rightarrow> int" where
  "daysIn m year =
     (if m = 2 \<and> isLeap year then 29
      else daysBefore ! nat m - daysBefore ! nat (m - 1))"

text \<open>
  \<open>norm\<close> carries the part of \<open>lo\<close> outside \<open>0 .. base - 1\<close> over into \<open>hi\<close>.
\<close>

definition time_norm :: "int \<Rightarrow> int \<Rightarrow> int \<Rightarrow> int \<times> int" where
  "time_norm hi lo base =
     (let (hi, lo) = (if lo < 0 then (let n = (- lo - 1) div base + 1 in (hi - n, lo + n * base))
                      else (hi, lo));
          (hi, lo) = (if lo \<ge> base then (let n = lo div base in (hi + n, lo - n * base))
                      else (hi, lo))
      in (hi, lo))"

text \<open>
  The days from 1 January 1970 to 1 January of a year, in the proleptic Gregorian calendar.
  (The library counts from an absolute epoch and shifts the result to the Unix epoch.)
\<close>

definition daysSinceEpoch :: "int \<Rightarrow> int" where
  "daysSinceEpoch year =
     (let y = year - 1 in 365 * y + y div 4 - y div 100 + y div 400 - 719162)"

text \<open>
  A time is represented by the seconds since the Unix epoch, which is all that the source
  reads of it, and a location by the offset in seconds east of UTC that it has for the date
  in question: \<open>0\<close> for UTC. \<open>Date\<close> normalises its arguments, counts the days and the
  seconds of the wall clock, and subtracts the offset.
\<close>

definition go_Date :: "int \<Rightarrow> int \<Rightarrow> int \<Rightarrow> int \<Rightarrow> int \<Rightarrow> int \<Rightarrow> int \<Rightarrow> int \<Rightarrow> int" where
  "go_Date year month day hour minute sec nsec loc =
     (let m = month - 1;
          (year, m) = time_norm year m 12;
          month = m + 1;
          (sec, nsec) = time_norm sec nsec 1000000000;
          (minute, sec) = time_norm minute sec 60;
          (hour, minute) = time_norm hour minute 60;
          (day, hour) = time_norm day hour 24;
          d = daysSinceEpoch year;
          d = d + daysBefore ! nat (month - 1);
          d = (if isLeap year \<and> month \<ge> 3 then d + 1 else d);
          d = d + (day - 1);
          unix = d * 86400 + (hour * 3600 + minute * 60 + sec)
      in unix - loc)"

text \<open>
  The zero time \<open>Time{}\<close>, which \<open>Parse\<close> returns beside an error, is 1 January of the
  year 1, 00:00:00 UTC.
\<close>

definition zero_Time :: int where
  "zero_Time = - 62135596800"

text \<open>
  \<open>Parse\<close> walks through the layout; for \<open>2006-01-02T15:04:05Z\<close> it reads, in this order, a
  year of four digits, \<open>-\<close>, a month of two digits, \<open>-\<close>, a day of two digits, \<open>T\<close>, an
  hour (of one or two digits: the element \<open>15\<close> is read by \<open>getnum\<close> without \<open>fixed\<close>),
  \<open>:\<close>, a minute and, after \<open>:\<close>, a second of two digits each, a fractional second if there
  is one, and the literal \<open>Z\<close>, after which the value must be empty. Month, hour, minute and
  second are checked against their ranges as they are read, the day against the length of
  its month at the end. \<open>parse_fields\<close> returns the fields read, or \<open>None\<close> where \<open>Parse\<close>
  returns an error.
\<close>

definition parse_fields :: "string \<Rightarrow> (int \<times> int \<times> int \<times> int \<times> int \<times> int) option" where
  "parse_fields v =
     Option.bind (stdLongYear v) (\<lambda>(year, v).
     Option.bind (skip v ''-'') (\<lambda>v.
     Option.bind (getnum v True) (\<lambda>(month, v).
     if month \<le> 0 \<or> 12 < month then None else
     Option.bind (skip v ''-'') (\<lambda>v.
     Option.bind (getnum v True) (\<lambda>(day, v).
     Option.bind (skip v ''T'') (\<lambda>v.
     Option.bind (getnum v False) (\<lambda>(hour, v).
     if hour < 0 \<or> 24 \<le> hour then None else
     Option.bind (skip v '':'') (\<lambda>v.
     Option.bind (getnum v True) (\<lambda>(minute, v).
     if minute < 0 \<or> 60 \<le> minute then None else
     Option.bind (skip v '':'') (\<lambda>v.
     Option.bind (getnum v True) (\<lambda>(sec, v).
     if sec < 0 \<or> 60 \<le> sec then None else
     Option.bind (skip (fractional_second v) ''Z'') (\<lambda>v.
     if v \<noteq> [] then None
     else if day < 1 \<or> day > daysIn month year then None
     else Some (year, month, day, hour, minute, sec)))))))))))))"

text \<open>
  A layout without a zone gives a time in UTC. The message of the error is not modelled,
  and neither is \<open>Parse\<close> for another layout: the source passes this one only.
\<close>

definition go_Parse :: "string \<Rightarrow> string \<Rightarrow> int \<times> error option" where
  "go_Parse layout v =
     (if layout = ''2006-01-02T15:04:05Z'' then
        (case parse_fields v of
           None \<Rightarrow> (zero_Time, Some (Error ''parsing time''))
         | Some (year, month, day, hour, minute, sec) \<Rightarrow>
             (go_Date year month day hour minute sec 0 0, None))
      else undefined)"

text \<open>
  The package, for a host whose local zone has the offset \<open>local\<close> at the all-zero date.
\<close>

definition go_time :: "int \<Rightarrow> (int, int) time_package" where
  "go_time local =
     \<lparr>time_Date = go_Date, time_Local = local, time_Parse = go_Parse, time_Unix = (\<lambda>t. t)\<rparr>"

section \<open>Resource translation and sandbox creation\<close>

text \<open>
  The limits of the kubelet API are \<open>float64\<close> values. A finite value is modelled by the
  real number it denotes, and the two operations of the source on it (adding \<open>0.5\<close>,
  dividing by \<open>1024\<close>) are exact on that number: the rounding of a \<open>float64\<close> sum to the
  nearest representable value is not modelled. The infinities and NaN are values of their
  own. Comparison with a constant follows IEEE 754: NaN compares false.
\<close>

datatype float64 = Finite real | PosInf | NegInf | NaN

definition float64_gt :: "float64 \<Rightarrow> real \<Rightarrow> bool" where
  "float64_gt x c = (case x of Finite r \<Rightarrow> c < r | PosInf \<Rightarrow> True | NegInf \<Rightarrow> False | NaN \<Rightarrow> False)"

definition float64_add :: "float64 \<Rightarrow> real \<Rightarrow> float64" where
  "float64_add x c = (case x of Finite r \<Rightarrow> Finite (r + c) | PosInf \<Rightarrow> PosInf | NegInf \<Rightarrow> NegInf | NaN \<Rightarrow> NaN)"

text \<open>Division by a positive constant.\<close>

definition float64_div :: "float64 \<Rightarrow> real \<Rightarrow> float64" where
  "float64_div x c = (case x of Finite r \<Rightarrow> Finite (r / c) | PosInf \<Rightarrow> PosInf | NegInf \<Rightarrow> NegInf | NaN \<Rightarrow> NaN)"

text \<open>
  The conversion \<open>int(x)\<close> of a \<open>float64\<close> discards the fraction (truncation towards zero).
  Go's \<open>int\<close> has 64 bits on the platforms of the provider; when the truncated value does
  not fit, or \<open>x\<close> is not finite, the language leaves the result to the implementation:
  that result is the parameter \<open>oor\<close>.
\<close>

definition truncate_real :: "real \<Rightarrow> int" where
  "truncate_real r = (if 0 \<le> r then \<lfloor>r\<rfloor> else \<lceil>r\<rceil>)"

definition int_of_float64 :: "(float64 \<Rightarrow> int) \<Rightarrow> float64 \<Rightarrow> int" where
  "int_of_float64 oor x =
     (case x of
        Finite r \<Rightarrow>
          if - (2 ^ 63) \<le> truncate_real r \<and> truncate_real r < 2 ^ 63 then truncate_real r
          else oor x
      | PosInf \<Rightarrow> oor x
      | NegInf \<Rightarrow> oor x
      | NaN \<Rightarrow> oor x)"

text \<open>
  The conversion \<open>int32(i)\<close> of an integer keeps the low 32 bits, read as two's complement.
\<close>

definition int32 :: "int \<Rightarrow> int" where
  "int32 i = (i + 2 ^ 31) mod 2 ^ 32 - 2 ^ 31"

text \<open>The messages of the kubelet API that \<open>CreatePodSandbox\<close> reads.\<close>

record ResourceRequirements =
  rr_Limits :: "float64 option"
  rr_Requests :: "float64 option"

record PodSandboxResources =
  psr_Cpu :: "ResourceRequirements option"
  psr_Memory :: "ResourceRequirements option"

record DNSOption =
  dns_Servers :: "string list"
  dns_Searches :: "string list"

record PodSandboxConfig =
  psc_Name :: "string option"
  psc_Hostname :: "string option"
  psc_Labels :: "string_map option"
  psc_Annotations :: string_map
  psc_DnsOptions :: "DNSOption option"
  psc_Resources :: "PodSandboxResources option"

text \<open>
  Modelled from the spec: the accessors that the protocol compiler generates for the kubelet
  API messages (\<open>GetName\<close>, \<open>GetHostname\<close>, \<open>GetImage\<close>, \<open>GetLimits\<close>, ...) are not among the
  sources. An accessor returns the value of a field that is set and the zero value of the
  field's type otherwise, also on a \<open>nil\<close> receiver; this is what makes an unset limit fall
  under the specification's rule "unset or \<open>\<le> 0\<close>: the default".
\<close>

definition get_string :: "string option \<Rightarrow> string" where
  "get_string field = (case field of Some v \<Rightarrow> v | None \<Rightarrow> [])"

definition GetLimits :: "ResourceRequirements \<Rightarrow> float64" where
  "GetLimits m = (case rr_Limits m of Some v \<Rightarrow> v | None \<Rightarrow> Finite 0)"

text \<open>The provider's pod specification, as far as the source fills it in.\<close>

record UserResource =
  ur_Vcpu :: int
  ur_Memory :: int

record UserPod =
  up_Id :: string
  up_Hostname :: string
  up_Labels :: string_map
  up_Dns :: "string list"
  up_Resource :: "UserResource option"

definition defaultCPUNumber :: int where
  "defaultCPUNumber = 1"

definition defaultMemoryinMegabytes :: int where
  "defaultMemoryinMegabytes = 128"

text \<open>
  The first half of \<open>CreatePodSandbox\<close> (the same text in both packages) builds the pod
  specification: annotations are written into the labels, the DNS servers are copied, and
  the resource limits are translated. \<open>spec.Labels[k] = v\<close> on the entry list is
  \<^const>\<open>AList.update\<close>.
\<close>

definition makeUserResource :: "(float64 \<Rightarrow> int) \<Rightarrow> PodSandboxConfig \<Rightarrow> UserResource" where
  "makeUserResource oor config =
     (let vcpu = defaultCPUNumber;
          memory = defaultMemoryinMegabytes;
          (vcpu, memory) =
            (case psc_Resources config of
               None \<Rightarrow> (vcpu, memory)
             | Some resources \<Rightarrow>
                 (let vcpu =
                        (case psr_Cpu resources of
                           None \<Rightarrow> vcpu
                         | Some cpu \<Rightarrow>
                             if float64_gt (GetLimits cpu) 0 then
                               (let vcpu = int_of_float64 oor (float64_add (GetLimits cpu) 0.5)
                                in if vcpu = 0 then 1 else vcpu)
                             else vcpu);
                      memory =
                        (case psr_Memory resources of
                           None \<Rightarrow> memory
                         | Some mem \<Rightarrow>
                             if float64_gt (GetLimits mem) 0 then
                               int_of_float64 oor
                                 (float64_div (float64_div (GetLimits mem) 1024) 1024)
                             else memory)
                  in (vcpu, memory)))
      in \<lparr>ur_Vcpu = int32 vcpu, ur_Memory = int32 memory\<rparr>)"

definition makeUserPod :: "(float64 \<Rightarrow> int) \<Rightarrow> PodSandboxConfig \<Rightarrow> UserPod" where
  "makeUserPod oor config =
     (let labels = (case psc_Labels config of None \<Rightarrow> [] | Some l \<Rightarrow> l);
          labels = fold (\<lambda>(k, v) l. AList.update k v l) (psc_Annotations config) labels;
          dns = (case psc_DnsOptions config of None \<Rightarrow> [] | Some d \<Rightarrow> dns_Servers d)
      in \<lparr>up_Id = get_string (psc_Name config),
          up_Hostname = get_string (psc_Hostname config),
          up_Labels = labels,
          up_Dns = dns,
          up_Resource = Some (makeUserResource oor config)\<rparr>)"

section \<open>The provider and its client\<close>

text \<open>
  The messages of the provider (package \<open>types\<close> of the daemon), as far as the source reads
  them. The nested messages of a reply are taken to be present, since the source
  dereferences them without a check.
\<close>

record types_ContainerStatus =
  tcs_Phase :: string

record types_Container =
  tc_Name :: string
  tc_ContainerID :: string
  tc_Image :: string
  tc_ImageID :: string
  tc_Labels :: string_map

record ContainerInfo =
  ci_Container :: types_Container
  ci_PodID :: string
  ci_Status :: types_ContainerStatus
  ci_CreatedAt :: int

record ContainerListResult =
  clr_ContainerID :: string
  clr_ContainerName :: string
  clr_PodID :: string
  clr_Status :: string

record ImageInfo =
  ii_Id :: string
  ii_RepoTags :: "string list"
  ii_RepoDigests :: "string list"
  ii_VirtualSize :: int

text \<open>
  The remote procedure calls that the client issues in the functions modelled here. Starting
  a pod is a stream: it is opened, one message with the pod id is sent, one reply is
  received. The provider offers no call that starts a single container.
\<close>

datatype rpc_call =
    ContainerInfo_call string
  | ContainerList_call bool
  | ImageList_call
  | PodCreate_call UserPod
  | PodStop_call string
  | PodStart_open
  | PodStart_Send string
  | PodStart_Recv

text \<open>
  The provider is an injected dependency: a state of some type \<open>'p\<close> and, for each call, a
  function from the request and the state to the reply (or an error, which covers the
  timeout of the call) and the next state.
\<close>

record 'p provider =
  ContainerInfo_rpc :: "string \<Rightarrow> 'p \<Rightarrow> (error + ContainerInfo) \<times> 'p"
  ContainerList_rpc :: "bool \<Rightarrow> 'p \<Rightarrow> (error + ContainerListResult list) \<times> 'p"
  ImageList_rpc :: "'p \<Rightarrow> (error + ImageInfo list) \<times> 'p"
  PodCreate_rpc :: "UserPod \<Rightarrow> 'p \<Rightarrow> (error + string) \<times> 'p"
  PodStop_rpc :: "string \<Rightarrow> 'p \<Rightarrow> (error + int \<times> string) \<times> 'p"
  PodStart_rpc :: "'p \<Rightarrow> (error + unit) \<times> 'p"
  Send_rpc :: "string \<Rightarrow> 'p \<Rightarrow> (error + unit) \<times> 'p"
  Recv_rpc :: "'p \<Rightarrow> (error + unit) \<times> 'p"

text \<open>
  The world that a client function runs in: the provider's state and the trace of the calls
  issued so far, each with the error it returned, if any.
\<close>

record 'p world =
  prov :: 'p
  trace :: "(rpc_call \<times> error option) list"

definition failure :: "error + 'a \<Rightarrow> error option" where
  "failure r = (case r of Inl e \<Rightarrow> Some e | Inr v \<Rightarrow> None)"

definition rpc ::
  "rpc_call \<Rightarrow> ('p \<Rightarrow> (error + 'a) \<times> 'p) \<Rightarrow> 'p world \<Rightarrow> (error + 'a) \<times> 'p world" where
  "rpc c f w =
     (let (r, p) = f (prov w)
      in (r, \<lparr>prov = p, trace = trace w @ [(c, failure r)]\<rparr>))"

text \<open>
  The methods of \<open>hyper.Client\<close>. A method that returns \<open>(value, error)\<close> with a \<open>nil\<close>
  value beside the error is a sum here; \<open>StopPod\<close> returns \<open>(-1, "", err)\<close> on failure, and
  a method that returns only an error returns an option.
\<close>

definition Client_GetContainerInfo ::
  "'p provider \<Rightarrow> string \<Rightarrow> 'p world \<Rightarrow> (error + ContainerInfo) \<times> 'p world" where
  "Client_GetContainerInfo P container w =
     rpc (ContainerInfo_call container) (ContainerInfo_rpc P container) w"

definition Client_GetContainerList ::
  "'p provider \<Rightarrow> bool \<Rightarrow> 'p world \<Rightarrow> (error + ContainerListResult list) \<times> 'p world" where
  "Client_GetContainerList P auxiliary w =
     rpc (ContainerList_call auxiliary) (ContainerList_rpc P auxiliary) w"

definition Client_GetImageList ::
  "'p provider \<Rightarrow> 'p world \<Rightarrow> (error + ImageInfo list) \<times> 'p world" where
  "Client_GetImageList P w = rpc ImageList_call (ImageList_rpc P) w"

definition Client_CreatePod ::
  "'p provider \<Rightarrow> UserPod \<Rightarrow> 'p world \<Rightarrow> (string \<times> error option) \<times> 'p world" where
  "Client_CreatePod P spec w =
     (case rpc (PodCreate_call spec) (PodCreate_rpc P spec) w of
        (Inl err, w') \<Rightarrow> (([], Some err), w')
      | (Inr podID, w') \<Rightarrow> ((podID, None), w'))"


definition Client_StartPod ::
  "'p provider \<Rightarrow> string \<Rightarrow> 'p world \<Rightarrow> error option \<times> 'p world" where
  "Client_StartPod P podID w =
     (case rpc PodStart_open (PodStart_rpc P) w of
        (Inl err, w1) \<Rightarrow> (Some err, w1)
      | (Inr stream, w1) \<Rightarrow>
          (case rpc (PodStart_Send podID) (Send_rpc P podID) w1 of
             (Inl err, w2) \<Rightarrow> (Some err, w2)
           | (Inr sent, w2) \<Rightarrow>
               (case rpc PodStart_Recv (Recv_rpc P) w2 of
                  (Inl err, w3) \<Rightarrow> (Some err, w3)
                | (Inr reply, w3) \<Rightarrow> (None, w3))))"


text \<open>
  \<open>Client.StopContainer\<close> and \<open>Client.RemoveContainer\<close> return \<open>nil\<close> at once: the
  container goes with its pod.
\<close>

definition Client_StopContainer ::
  "'p provider \<Rightarrow> string \<Rightarrow> int \<Rightarrow> 'p world \<Rightarrow> error option \<times> 'p world" where
  "Client_StopContainer P containerID timeout w = (None, w)"

definition Client_RemoveContainer ::
  "'p provider \<Rightarrow> string \<Rightarrow> 'p world \<Rightarrow> error option \<times> 'p world" where
  "Client_RemoveContainer P containerID w = (None, w)"

section \<open>Lifecycle bridge and listings\<close>

text \<open>
  The messages of the kubelet API that the listings read and build. A pointer field is an
  option. Log output (\<open>glog\<close>) is not part of the model.
\<close>

record ImageSpec =
  is_Image :: "string option"

record ImageFilter =
  if_Image :: "ImageSpec option"

record kubeapi_Image =
  ki_Id :: "string option"
  ki_RepoTags :: "string list"
  ki_RepoDigests :: "string list"
  ki_Size :: "int option"

record ContainerFilter =
  cf_Name :: "string option"
  cf_Id :: "string option"
  cf_State :: "ContainerState option"
  cf_PodSandboxId :: "string option"
  cf_LabelSelector :: "string_map option"

record kubeapi_Container =
  kc_Id :: "string option"
  kc_Name :: "string option"
  kc_Image :: "ImageSpec option"
  kc_ImageRef :: "string option"
  kc_State :: "ContainerState option"
  kc_Labels :: string_map

text \<open>Modelled from the spec: the generated accessor \<open>GetImage\<close>, safe on \<open>nil\<close> as above.\<close>

definition GetImage :: "ImageSpec option \<Rightarrow> string" where
  "GetImage m = (case m of None \<Rightarrow> [] | Some spec \<Rightarrow> get_string (is_Image spec))"

text \<open>The conversion \<open>uint64(i)\<close> of an \<open>int64\<close> keeps the 64 bits.\<close>

definition uint64 :: "int \<Rightarrow> int" where
  "uint64 i = i mod 2 ^ 64"

subsection \<open>The direct-call surface: \<open>HyperRuntime\<close>\<close>

definition HyperRuntime_CreatePodSandbox ::
  "'p provider \<Rightarrow> (float64 \<Rightarrow> int) \<Rightarrow> PodSandboxConfig \<Rightarrow> 'p world \<Rightarrow>
     (string \<times> error option) \<times> 'p world" where
  "HyperRuntime_CreatePodSandbox P oor config w =
     (let spec = makeUserPod oor config in
      case Client_CreatePod P spec w of
        ((podID, Some err), w1) \<Rightarrow> (([], Some err), w1)
      | ((podID, None), w1) \<Rightarrow>
          (case Client_StartPod P podID w1 of
             (Some err, w2) \<Rightarrow> (([], Some err), w2)
           | (None, w2) \<Rightarrow> ((podID, None), w2)))"


definition HyperRuntime_StopContainer ::
  "'p provider \<Rightarrow> string \<Rightarrow> int \<Rightarrow> 'p world \<Rightarrow> error option \<times> 'p world" where
  "HyperRuntime_StopContainer P rawContainerID timeout w =
     (case Client_StopContainer P rawContainerID timeout w of
        (Some err, w') \<Rightarrow> (Some err, w')
      | (None, w') \<Rightarrow> (None, w'))"

definition HyperRuntime_RemoveContainer ::
  "'p provider \<Rightarrow> string \<Rightarrow> 'p world \<Rightarrow> error option \<times> 'p world" where
  "HyperRuntime_RemoveContainer P rawContainerID w =
     (case Client_RemoveContainer P rawContainerID w of
        (Some err, w') \<Rightarrow> (Some err, w')
      | (None, w') \<Rightarrow> (None, w'))"

text \<open>
  The loop of \<open>ListContainers\<close> over the provider's listing; \<open>containers\<close> is the slice
  built so far. Each \<open>continue\<close> of the source is a recursive call that leaves
  \<open>containers\<close> as it is; the \<open>return nil, err\<close> inside the loop ends it with no list.
\<close>

fun ListContainers_loop ::
  "'p provider \<Rightarrow> ContainerFilter option \<Rightarrow> ContainerListResult list \<Rightarrow>
     kubeapi_Container list \<Rightarrow> 'p world \<Rightarrow>
     (kubeapi_Container list option \<times> error option) \<times> 'p world" where
  "ListContainers_loop P filter' [] containers w = ((Some containers, None), w)"
| "ListContainers_loop P filter' (c # rest) containers w =
     (let containerName = strings_TrimPrefix (clr_ContainerName c) ''/'' in
      if (case filter' of
            None \<Rightarrow> False
          | Some f \<Rightarrow>
              (cf_Name f \<noteq> None \<and> containerName \<noteq> get_string (cf_Name f)) \<or>
              (cf_Id f \<noteq> None \<and> clr_ContainerID c \<noteq> get_string (cf_Id f)) \<or>
              (cf_PodSandboxId f \<noteq> None \<and> clr_PodID c \<noteq> get_string (cf_PodSandboxId f)))
      then ListContainers_loop P filter' rest containers w
      else
        (case Client_GetContainerInfo P (clr_ContainerID c) w of
           (Inl err, w') \<Rightarrow> ((None, Some err), w')
         | (Inr info, w') \<Rightarrow>
             (let state = toKubeContainerState (tcs_Phase (ci_Status info)) in
              if (case filter' of
                    None \<Rightarrow> False
                  | Some f \<Rightarrow>
                      (case cf_State f of None \<Rightarrow> False | Some st \<Rightarrow> state \<noteq> st) \<or>
                      (case cf_LabelSelector f of
                         None \<Rightarrow> False
                       | Some sel \<Rightarrow> \<not> inMap sel (tc_Labels (ci_Container info))))
              then ListContainers_loop P filter' rest containers w'
              else
                ListContainers_loop P filter' rest
                  (containers @
                     [\<lparr>kc_Id = Some (clr_ContainerID c),
                       kc_Name = Some containerName,
                       kc_Image = Some \<lparr>is_Image = Some (tc_Image (ci_Container info))\<rparr>,
                       kc_ImageRef = Some (tc_ImageID (ci_Container info)),
                       kc_State = Some state,
                       kc_Labels = tc_Labels (ci_Container info)\<rparr>])
                  w')))"

definition HyperRuntime_ListContainers ::
  "'p provider \<Rightarrow> ContainerFilter option \<Rightarrow> 'p world \<Rightarrow>
     (kubeapi_Container list option \<times> error option) \<times> 'p world" where
  "HyperRuntime_ListContainers P filter' w =
     (case Client_GetContainerList P False w of
        (Inl err, w') \<Rightarrow> ((None, Some err), w')
      | (Inr containerList, w') \<Rightarrow> ListContainers_loop P filter' containerList [] w')"

text \<open>
  The loop of \<open>ListImages\<close>; \<open>results\<close> is the slice built so far. The local \<open>filter\<close> of
  the source is the image string of the request's filter, with \<open>:latest\<close> appended when it
  has no colon.
\<close>

fun ListImages_loop ::
  "ImageFilter option \<Rightarrow> ImageInfo list \<Rightarrow> kubeapi_Image list \<Rightarrow> kubeapi_Image list" where
  "ListImages_loop filter' [] results = results"
| "ListImages_loop filter' (img # rest) results =
     (if (case filter' of
            None \<Rightarrow> False
          | Some f \<Rightarrow>
              (let flt = GetImage (if_Image f);
                   flt = (if \<not> strings_Contains flt CHR '':'' then flt @ '':latest'' else flt)
               in \<not> inList flt (ii_RepoTags img)))
      then ListImages_loop filter' rest results
      else
        ListImages_loop filter' rest
          (results @
             [\<lparr>ki_Id = Some (ii_Id img),
               ki_RepoTags = ii_RepoTags img,
               ki_RepoDigests = ii_RepoDigests img,
               ki_Size = Some (uint64 (ii_VirtualSize img))\<rparr>]))"

definition HyperRuntime_ListImages ::
  "'p provider \<Rightarrow> ImageFilter option \<Rightarrow> 'p world \<Rightarrow>
     (kubeapi_Image list option \<times> error option) \<times> 'p world" where
  "HyperRuntime_ListImages P filter' w =
     (case Client_GetImageList P w of
        (Inl err, w') \<Rightarrow> ((None, Some err), w')
      | (Inr images, w') \<Rightarrow> ((Some (ListImages_loop filter' images []), None), w'))"

subsection \<open>The RPC-server surface: \<open>KubeHyperManager\<close>\<close>

text \<open>
  The requests and responses of the server surface. The bodies repeat those of the
  direct-call surface; a response wraps what the direct call returns.
\<close>

record CreatePodSandboxRequest =
  cpsq_Config :: PodSandboxConfig

record CreatePodSandboxResponse =
  cpsp_PodSandboxId :: "string option"



record StopContainerRequest =
  stq_ContainerId :: "string option"
  stq_Timeout :: "int option"

datatype StopContainerResponse = StopContainerResponse

record RemoveContainerRequest =
  rcq_ContainerId :: "string option"

datatype RemoveContainerResponse = RemoveContainerResponse

record ListContainersRequest =
  lcq_Filter :: "ContainerFilter option"

record ListContainersResponse =
  lcp_Containers :: "kubeapi_Container list"

record ListImagesRequest =
  liq_Filter :: "ImageFilter option"

record ListImagesResponse =
  lip_Images :: "kubeapi_Image list"

definition get_int :: "int option \<Rightarrow> int" where
  "get_int field = (case field of Some v \<Rightarrow> v | None \<Rightarrow> 0)"

definition KubeHyperManager_CreatePodSandbox ::
  "'p provider \<Rightarrow> (float64 \<Rightarrow> int) \<Rightarrow> CreatePodSandboxRequest \<Rightarrow> 'p world \<Rightarrow>
     (CreatePodSandboxResponse option \<times> error option) \<times> 'p world" where
  "KubeHyperManager_CreatePodSandbox P oor req w =
     (let config = cpsq_Config req;
          spec = makeUserPod oor config
      in case Client_CreatePod P spec w of
           ((podID, Some err), w1) \<Rightarrow> ((None, Some err), w1)
         | ((podID, None), w1) \<Rightarrow>
             (case Client_StartPod P podID w1 of
                (Some err, w2) \<Rightarrow> ((None, Some err), w2)
              | (None, w2) \<Rightarrow> ((Some \<lparr>cpsp_PodSandboxId = Some podID\<rparr>, None), w2)))"


definition KubeHyperManager_StopContainer ::
  "'p provider \<Rightarrow> StopContainerRequest \<Rightarrow> 'p world \<Rightarrow>
     (StopContainerResponse option \<times> error option) \<times> 'p world" where
  "KubeHyperManager_StopContainer P req w =
     (let containerID = get_string (stq_ContainerId req) in
      case Client_StopContainer P containerID (get_int (stq_Timeout req)) w of
        (Some err, w') \<Rightarrow> ((None, Some err), w')
      | (None, w') \<Rightarrow> ((Some StopContainerResponse, None), w'))"

definition KubeHyperManager_RemoveContainer ::
  "'p provider \<Rightarrow> RemoveContainerRequest \<Rightarrow> 'p world \<Rightarrow>
     (RemoveContainerResponse option \<times> error option) \<times> 'p world" where
  "KubeHyperManager_RemoveContainer P req w =
     (let containerID = get_string (rcq_ContainerId req) in
      case Client_RemoveContainer P containerID w of
        (Some err, w') \<Rightarrow> ((None, Some err), w')
      | (None, w') \<Rightarrow> ((Some RemoveContainerResponse, None), w'))"

definition KubeHyperManager_ListContainers ::
  "'p provider \<Rightarrow> ListContainersRequest \<Rightarrow> 'p world \<Rightarrow>
     (ListContainersResponse option \<times> error option) \<times> 'p world" where
  "KubeHyperManager_ListContainers P req w =
     (case Client_GetContainerList P False w of
        (Inl err, w') \<Rightarrow> ((None, Some err), w')
      | (Inr containerList, w') \<Rightarrow>
          (case ListContainers_loop P (lcq_Filter req) containerList [] w' of
             ((Some containers, err), w'') \<Rightarrow>
               ((Some \<lparr>lcp_Containers = containers\<rparr>, None), w'')
           | ((None, err), w'') \<Rightarrow> ((None, err), w'')))"

definition KubeHyperManager_ListImages ::
  "'p provider \<Rightarrow> ListImagesRequest \<Rightarrow> 'p world \<Rightarrow>
     (ListImagesResponse option \<times> error option) \<times> 'p world" where
  "KubeHyperManager_ListImages P req w =
     (case Client_GetImageList P w of
        (Inl err, w') \<Rightarrow> ((None, Some err), w')
      | (Inr images, w') \<Rightarrow>
          ((Some \<lparr>lip_Images = ListImages_loop (liq_Filter req) images []\<rparr>, None), w'))"

section \<open>Reference definitions and scenarios\<close>

text \<open>
  The limit that a sandbox configuration carries for a resource, if any: the resources, the
  resource's requirements and the limit itself are all optional.
\<close>

definition cpu_limit :: "PodSandboxConfig \<Rightarrow> float64 option" where
  "cpu_limit config =
     (case psc_Resources config of
        None \<Rightarrow> None
      | Some resources \<Rightarrow> (case psr_Cpu resources of None \<Rightarrow> None | Some cpu \<Rightarrow> rr_Limits cpu))"

definition memory_limit :: "PodSandboxConfig \<Rightarrow> float64 option" where
  "memory_limit config =
     (case psc_Resources config of
        None \<Rightarrow> None
      | Some resources \<Rightarrow> (case psr_Memory resources of None \<Rightarrow> None | Some mem \<Rightarrow> rr_Limits mem))"

text \<open>
  The translation as the specification words it, over the real value of a limit: the default
  when the limit is unset or not positive; otherwise \<open>floor(limit + 0.5)\<close>, raised to
  \<open>1\<close> when it is \<open>0\<close>, and \<open>floor(limit / 1024 / 1024)\<close>.
\<close>

definition vcpu_reference :: "real option \<Rightarrow> int" where
  "vcpu_reference limit =
     (case limit of
        None \<Rightarrow> 1
      | Some l \<Rightarrow> if l \<le> 0 then 1 else if \<lfloor>l + 0.5\<rfloor> = 0 then 1 else \<lfloor>l + 0.5\<rfloor>)"

definition memoryMB_reference :: "real option \<Rightarrow> int" where
  "memoryMB_reference limit =
     (case limit of
        None \<Rightarrow> 128
      | Some l \<Rightarrow> if l \<le> 0 then 128 else \<lfloor>l / 1024 / 1024\<rfloor>)"

text \<open>
  On amd64 the conversion instruction answers the most negative integer for a value that
  does not fit: one possible \<open>oor\<close>, used where a scenario needs a concrete one.
\<close>

definition oor_amd64 :: "float64 \<Rightarrow> int" where
  "oor_amd64 x = - (2 ^ 63)"

text \<open>A sandbox configuration with the two limits given and nothing else of interest.\<close>

definition sandbox_with_limits :: "float64 option \<Rightarrow> float64 option \<Rightarrow> PodSandboxConfig" where
  "sandbox_with_limits c m =
     \<lparr>psc_Name = Some ''sandbox'', psc_Hostname = None, psc_Labels = None, psc_Annotations = [],
      psc_DnsOptions = None,
      psc_Resources = Some \<lparr>psr_Cpu = Some \<lparr>rr_Limits = c, rr_Requests = None\<rparr>,
                            psr_Memory = Some \<lparr>rr_Limits = m, rr_Requests = None\<rparr>\<rparr>\<rparr>"

text \<open>
  Timestamp texts. A field of four, two or one digits and the number it denotes; a
  fractional second, which is a period or comma and one or more digits.
\<close>

definition four_digit :: "string \<Rightarrow> int \<Rightarrow> bool" where
  "four_digit t n =
     (\<exists>a b c d. t = [a, b, c, d] \<and> isDigit a \<and> isDigit b \<and> isDigit c \<and> isDigit d \<and>
        n = 1000 * digit_value a + 100 * digit_value b + 10 * digit_value c + digit_value d)"

definition two_digit :: "string \<Rightarrow> int \<Rightarrow> bool" where
  "two_digit t n =
     (\<exists>a b. t = [a, b] \<and> isDigit a \<and> isDigit b \<and> n = 10 * digit_value a + digit_value b)"

definition one_digit :: "string \<Rightarrow> int \<Rightarrow> bool" where
  "one_digit t n = (\<exists>a. t = [a] \<and> isDigit a \<and> n = digit_value a)"

definition fraction_text :: "string \<Rightarrow> bool" where
  "fraction_text t = (\<exists>p ds. t = p # ds \<and> commaOrPeriod p \<and> ds \<noteq> [] \<and> list_all isDigit ds)"

text \<open>
  The shape that the specification names, \<open>YYYY-MM-DDThh:mm:ssZ\<close>: twenty bytes, every
  letter but \<open>T\<close> and \<open>Z\<close> a digit.
\<close>

definition layout_shape :: "string \<Rightarrow> bool" where
  "layout_shape str =
     (\<exists>YYYY MM DD hh mm ss year month day hour minute sec.
        str = YYYY @ ''-'' @ MM @ ''-'' @ DD @ ''T'' @ hh @ '':'' @ mm @ '':'' @ ss @ ''Z'' \<and>
        four_digit YYYY year \<and> two_digit MM month \<and> two_digit DD day \<and>
        two_digit hh hour \<and> two_digit mm minute \<and> two_digit ss sec)"

text \<open>
  The texts of a timestamp with given fields: of that shape, but the hour may have one
  digit and a fractional second may stand before the \<open>Z\<close>. The fields are valid when they
  denote a date of the calendar and a time of the day.
\<close>

definition timestamp_text :: "string \<Rightarrow> int \<times> int \<times> int \<times> int \<times> int \<times> int \<Rightarrow> bool" where
  "timestamp_text str f =
     (\<exists>YYYY MM DD hh mm ss fr year month day hour minute sec.
        str = YYYY @ ''-'' @ MM @ ''-'' @ DD @ ''T'' @ hh @ '':'' @ mm @ '':'' @ ss @ fr @ ''Z'' \<and>
        four_digit YYYY year \<and> two_digit MM month \<and> two_digit DD day \<and>
        (two_digit hh hour \<or> one_digit hh hour) \<and>
        two_digit mm minute \<and> two_digit ss sec \<and>
        (fr = [] \<or> fraction_text fr) \<and>
        f = (year, month, day, hour, minute, sec))"

definition valid_fields :: "int \<times> int \<times> int \<times> int \<times> int \<times> int \<Rightarrow> bool" where
  "valid_fields f =
     (case f of (year, month, day, hour, minute, sec) \<Rightarrow>
        1 \<le> month \<and> month \<le> 12 \<and> 1 \<le> day \<and> day \<le> daysIn month year \<and>
        hour < 24 \<and> minute < 60 \<and> sec < 60)"

text \<open>
  A provider for the scenarios: its state counts the calls it has answered; it lists five
  containers of one pod, fails the info lookup of the third, knows four images, and stops
  only the pod it has.
\<close>

definition sample_info :: "string \<Rightarrow> string \<Rightarrow> ContainerInfo" where
  "sample_info cid pod =
     \<lparr>ci_Container = \<lparr>tc_Name = CHR ''/'' # cid, tc_ContainerID = cid, tc_Image = ''busybox'',
                       tc_ImageID = ''sha256:0001'', tc_Labels = []\<rparr>,
      ci_PodID = pod,
      ci_Status = \<lparr>tcs_Phase = ''running''\<rparr>,
      ci_CreatedAt = 0\<rparr>"

definition sample_listing :: "ContainerListResult list" where
  "sample_listing =
     map (\<lambda>cid. \<lparr>clr_ContainerID = cid, clr_ContainerName = CHR ''/'' # cid,
                   clr_PodID = ''pod-1'', clr_Status = ''running''\<rparr>)
       [''c1'', ''c2'', ''c3'', ''c4'', ''c5'']"

definition sample_images :: "ImageInfo list" where
  "sample_images =
     [\<lparr>ii_Id = ''nginx'', ii_RepoTags = [''web:1.0''], ii_RepoDigests = [''nginx@sha256:aa''],
        ii_VirtualSize = 10\<rparr>,
      \<lparr>ii_Id = ''id-2'', ii_RepoTags = [''nginx:latest'', ''nginx:1.19''], ii_RepoDigests = [],
        ii_VirtualSize = 20\<rparr>,
      \<lparr>ii_Id = ''id-3'', ii_RepoTags = [''localhost:5000/foo:latest''], ii_RepoDigests = [],
        ii_VirtualSize = 30\<rparr>,
      \<lparr>ii_Id = ''id-4'', ii_RepoTags = [''localhost:5000/foo''], ii_RepoDigests = [],
        ii_VirtualSize = 40\<rparr>]"

definition sample_provider :: "nat provider" where
  "sample_provider =
     \<lparr>ContainerInfo_rpc = (\<lambda>container n.
         (if container = ''c3'' then Inl (Error ''no such container'')
          else Inr (sample_info container ''pod-1''), Suc n)),
      ContainerList_rpc = (\<lambda>auxiliary n. (Inr sample_listing, Suc n)),
      ImageList_rpc = (\<lambda>n. (Inr sample_images, Suc n)),
      PodCreate_rpc = (\<lambda>spec n. (Inr (up_Id spec), Suc n)),
      PodStop_rpc = (\<lambda>podID n.
         (if podID = ''pod-1'' then Inr (0, []) else Inl (Error ''no such pod''), Suc n)),
      PodStart_rpc = (\<lambda>n. (Inr (), Suc n)),
      Send_rpc = (\<lambda>podID n. (Inr (), Suc n)),
      Recv_rpc = (\<lambda>n. (Inr (), Suc n))\<rparr>"

definition sample_world :: "nat world" where
  "sample_world = \<lparr>prov = 0, trace = []\<rparr>"

text \<open>
  The normalised filter reference, in the words of the claim about image listing:
  \<open>:latest\<close> is appended iff the string has no colon anywhere.
\<close>

definition normalized_filter :: "string \<Rightarrow> string" where
  "normalized_filter ref = (if CHR '':'' \<in> set ref then ref else ref @ '':latest'')"

definition image_filter :: "string \<Rightarrow> ImageFilter" where
  "image_filter ref = \<lparr>if_Image = Some \<lparr>is_Image = Some ref\<rparr>\<rparr>"

section \<open>Properties of the status mapper\<close>

lemma toKubeContainerState_cases:
  "toKubeContainerState s = ContainerState_RUNNING \<or>
   toKubeContainerState s = ContainerState_CREATED \<or>
   toKubeContainerState s = ContainerState_EXITED \<or>
   toKubeContainerState s = ContainerState_UNKNOWN"
  by (cases "toKubeContainerState s") simp_all

text \<open>
  Claim C3. Both status-mapping functions are total functions of the phase string and follow
  the table case-sensitively: the sandbox mapper answers READY exactly on \<open>running\<close> and
  \<open>Running\<close> and NOT_READY on everything else; the container mapper answers RUNNING exactly
  on \<open>running\<close>, CREATED exactly on \<open>pending\<close>, EXITED exactly on \<open>failed\<close> and
  \<open>succeeded\<close>, and UNKNOWN on every other string, among them \<open>Running\<close>.
\<close>

theorem status_mapping_table:
  "((toPodSandboxState s = PodSandBoxState_READY) = (s = ''running'' \<or> s = ''Running'')) \<and>
   ((toPodSandboxState s = PodSandBoxState_NOTREADY) = (s \<noteq> ''running'' \<and> s \<noteq> ''Running'')) \<and>
   ((toKubeContainerState s = ContainerState_RUNNING) = (s = ''running'')) \<and>
   ((toKubeContainerState s = ContainerState_CREATED) = (s = ''pending'')) \<and>
   ((toKubeContainerState s = ContainerState_EXITED) = (s = ''failed'' \<or> s = ''succeeded'')) \<and>
   ((toKubeContainerState s = ContainerState_UNKNOWN) =
      (s \<noteq> ''running'' \<and> s \<noteq> ''pending'' \<and> s \<noteq> ''failed'' \<and> s \<noteq> ''succeeded'')) \<and>
   toKubeContainerState ''Running'' = ContainerState_UNKNOWN \<and>
   toPodSandboxState ''Running'' = PodSandBoxState_READY"
  by (simp add: toPodSandboxState_def toKubeContainerState_def)

section \<open>Properties of the resource translation\<close>

lemma int32_id: "- (2 ^ 31) \<le> i \<Longrightarrow> i < 2 ^ 31 \<Longrightarrow> int32 i = i"
  by (simp add: int32_def)

lemma int_of_float64_floor:
  assumes "0 \<le> r" and "\<lfloor>r\<rfloor> < 2 ^ 31"
  shows "int_of_float64 oor (Finite r) = \<lfloor>r\<rfloor>"
proof -
  have "0 \<le> \<lfloor>r\<rfloor>" using assms(1) by simp
  moreover have "\<lfloor>r\<rfloor> < 2 ^ 63" using assms(2) by simp
  ultimately show ?thesis using assms(1)
    by (simp add: int_of_float64_def truncate_real_def)
qed

lemma vcpu_translation:
  assumes "vcpu_reference c < 2 ^ 31"
  shows "int32 (case map_option Finite c of
            None \<Rightarrow> defaultCPUNumber
          | Some x \<Rightarrow>
              if float64_gt x 0 then
                (let vcpu = int_of_float64 oor (float64_add x 0.5)
                 in if vcpu = 0 then 1 else vcpu)
              else defaultCPUNumber) = vcpu_reference c"
proof (cases c)
  case None
  then show ?thesis by (simp add: vcpu_reference_def defaultCPUNumber_def int32_def)
next
  case (Some l)
  show ?thesis
  proof (cases "l \<le> 0")
    case True
    then show ?thesis using Some
      by (simp add: vcpu_reference_def defaultCPUNumber_def int32_def float64_gt_def)
  next
    case False
    define v where "v = \<lfloor>l + 1 / 2\<rfloor>"
    have pos: "0 \<le> l + 1 / 2" using False by simp
    have v0: "0 \<le> v" unfolding v_def using pos by (rule zero_le_floor [THEN iffD2])
    have ref: "vcpu_reference (Some l) = (if v = 0 then 1 else v)"
      using False by (simp add: vcpu_reference_def v_def)
    have bound: "v < 2 ^ 31" using assms ref Some by (simp split: if_splits)
    have conv: "int_of_float64 oor (Finite (l + 1 / 2)) = v"
      unfolding v_def by (rule int_of_float64_floor [OF pos bound [unfolded v_def]])
    have "int32 (if v = 0 then 1 else v) = (if v = 0 then 1 else v)"
      using v0 bound by (intro int32_id) auto
    then show ?thesis using Some False
      by (simp add: ref float64_gt_def float64_add_def conv Let_def)
  qed
qed

lemma memory_translation:
  assumes "memoryMB_reference m < 2 ^ 31"
  shows "int32 (case map_option Finite m of
            None \<Rightarrow> defaultMemoryinMegabytes
          | Some x \<Rightarrow>
              if float64_gt x 0 then
                int_of_float64 oor (float64_div (float64_div x 1024) 1024)
              else defaultMemoryinMegabytes) = memoryMB_reference m"
proof (cases m)
  case None
  then show ?thesis by (simp add: memoryMB_reference_def defaultMemoryinMegabytes_def int32_def)
next
  case (Some l)
  show ?thesis
  proof (cases "l \<le> 0")
    case True
    then show ?thesis using Some
      by (simp add: memoryMB_reference_def defaultMemoryinMegabytes_def int32_def float64_gt_def)
  next
    case False
    define q where "q = l / 1024 / 1024"
    define v where "v = \<lfloor>q\<rfloor>"
    have pos: "0 \<le> q" using False by (simp add: q_def)
    have v0: "0 \<le> v" unfolding v_def using pos by (rule zero_le_floor [THEN iffD2])
    have ref: "memoryMB_reference (Some l) = v"
      using False by (simp add: memoryMB_reference_def v_def q_def)
    have bound: "v < 2 ^ 31" using assms ref Some by simp
    have conv: "int_of_float64 oor (Finite q) = v"
      unfolding v_def by (rule int_of_float64_floor [OF pos bound [unfolded v_def]])
    have fd: "float64_div (float64_div (Finite l) 1024) 1024 = Finite q"
      by (simp add: float64_div_def q_def)
    have gt: "float64_gt (Finite l) 0" using False by (simp add: float64_gt_def)
    have "int32 v = v" using v0 bound by (intro int32_id) auto
    then show ?thesis unfolding Some ref
      by (simp only: option.map option.case fd gt if_True conv)
  qed
qed

lemma makeUserResource_limits:
  "makeUserResource oor config =
     \<lparr>ur_Vcpu = int32 (case cpu_limit config of
            None \<Rightarrow> defaultCPUNumber
          | Some x \<Rightarrow>
              if float64_gt x 0 then
                (let vcpu = int_of_float64 oor (float64_add x 0.5)
                 in if vcpu = 0 then 1 else vcpu)
              else defaultCPUNumber),
      ur_Memory = int32 (case memory_limit config of
            None \<Rightarrow> defaultMemoryinMegabytes
          | Some x \<Rightarrow>
              if float64_gt x 0 then
                int_of_float64 oor (float64_div (float64_div x 1024) 1024)
              else defaultMemoryinMegabytes)\<rparr>"
  by (simp add: makeUserResource_def cpu_limit_def memory_limit_def GetLimits_def float64_gt_def
      Let_def split: option.splits)

text \<open>
  Claim C4, amended. The translation never fails (it is a total function) and, whenever the
  limits are unset or finite and the translated values fit the provider's signed 32-bit
  fields, it computes: one vCPU when the CPU limit is unset or not positive, else
  \<open>floor(limit + 0.5)\<close> raised to \<open>1\<close> when that is \<open>0\<close>; 128 megabytes when the memory
  limit is unset or not positive, else \<open>floor(limit / 1024 / 1024)\<close>.
\<close>

theorem resource_translation_in_range:
  assumes "cpu_limit config = map_option Finite c"
    and "memory_limit config = map_option Finite m"
    and "vcpu_reference c < 2 ^ 31"
    and "memoryMB_reference m < 2 ^ 31"
  shows "makeUserResource oor config =
           \<lparr>ur_Vcpu = vcpu_reference c, ur_Memory = memoryMB_reference m\<rparr>"
  unfolding makeUserResource_limits assms(1,2)
  by (simp only: vcpu_translation [OF assms(3)] memory_translation [OF assms(4)])

text \<open>
  The two examples of the specification: \<open>(0.4, 0)\<close> gives \<open>(1, 128)\<close> and
  \<open>(2.6, 300 * 1024 * 1024)\<close> gives \<open>(3, 300)\<close>.
\<close>

theorem resource_translation_in_range_witness:
  "makeUserResource oor_amd64 (sandbox_with_limits (Some (Finite 0.4)) (Some (Finite 0))) =
     \<lparr>ur_Vcpu = 1, ur_Memory = 128\<rparr> \<and>
   makeUserResource oor_amd64
       (sandbox_with_limits (Some (Finite 2.6)) (Some (Finite (300 * 1024 * 1024)))) =
     \<lparr>ur_Vcpu = 3, ur_Memory = 300\<rparr>"
  using resource_translation_in_range
      [of "sandbox_with_limits (Some (Finite 0.4)) (Some (Finite 0))" "Some 0.4" "Some 0" oor_amd64]
    resource_translation_in_range
      [of "sandbox_with_limits (Some (Finite 2.6)) (Some (Finite (300 * 1024 * 1024)))"
          "Some 2.6" "Some (300 * 1024 * 1024)" oor_amd64]
  by (simp add: cpu_limit_def memory_limit_def sandbox_with_limits_def vcpu_reference_def
      memoryMB_reference_def)

text \<open>
  Without the bound the claim fails: a CPU limit of \<open>2^32\<close> cores is rounded to \<open>2^32\<close>,
  and the conversion to the 32-bit field leaves \<open>0\<close>.
\<close>

theorem vcpu_wraps_counterexample:
  "ur_Vcpu (makeUserResource oor_amd64
      (sandbox_with_limits (Some (Finite 4294967296)) (Some (Finite 0)))) = 0 \<and>
   vcpu_reference (Some 4294967296) = 4294967296"
  by (simp add: makeUserResource_def sandbox_with_limits_def GetLimits_def float64_gt_def
      float64_add_def int_of_float64_def truncate_real_def int32_def defaultCPUNumber_def
      defaultMemoryinMegabytes_def vcpu_reference_def)

text \<open>
  Claim C5. The pair sent to the provider should satisfy \<open>vcpu \<ge> 1\<close> and
  \<open>memoryMB \<ge> 1\<close>. The CPU branch raises a zero to one; the memory branch has no such
  step, and a positive limit below one mebibyte (here 1048575 bytes) is translated to
  zero megabytes, whatever \<open>oor\<close> is.
\<close>

theorem small_memory_limit_gives_zero:
  "makeUserResource oor (sandbox_with_limits (Some (Finite 1)) (Some (Finite 1048575))) =
     \<lparr>ur_Vcpu = 1, ur_Memory = 0\<rparr>"
  by (simp add: makeUserResource_def sandbox_with_limits_def GetLimits_def float64_gt_def
      float64_add_def float64_div_def int_of_float64_def truncate_real_def int32_def
      defaultCPUNumber_def defaultMemoryinMegabytes_def)

section \<open>Properties of the reference parser\<close>

lemma strings_Index_lower: "- 1 \<le> strings_Index s c"
  by (induction s) (auto simp: Let_def)

lemma strings_Index_mem: "(0 \<le> strings_Index s c) = (c \<in> set s)"
  using strings_Index_lower by (induction s) (auto simp: Let_def)

lemma strings_Contains_mem: "strings_Contains s c = (c \<in> set s)"
  by (simp add: strings_Contains_def strings_Index_mem)

lemma strings_Split_unfold:
  "strings_Split s c =
     takeWhile (\<lambda>x. x \<noteq> c) s #
       (if c \<in> set s then strings_Split (tl (dropWhile (\<lambda>x. x \<noteq> c) s)) c else [])"
  by (induction s) (auto split: list.splits)

lemma strings_Split_two:
  assumes "c \<in> set s"
  shows "\<exists>ps. strings_Split s c =
           takeWhile (\<lambda>x. x \<noteq> c) s #
           takeWhile (\<lambda>x. x \<noteq> c) (tl (dropWhile (\<lambda>x. x \<noteq> c) s)) # ps"
  using assms strings_Split_unfold [of s c]
    strings_Split_unfold [of "tl (dropWhile (\<lambda>x. x \<noteq> c) s)" c]
  by simp

lemma strings_LastIndex_absent: "c \<notin> set s \<Longrightarrow> strings_LastIndex s c = - 1"
  by (induction s) (auto simp: Let_def)

lemma strings_LastIndex_last:
  "c \<notin> set t \<Longrightarrow> strings_LastIndex (a @ c # t) c = int (length a)"
  by (induction a) (auto simp: Let_def strings_LastIndex_absent)

lemma takeWhile_until:
  "c \<notin> set xs \<Longrightarrow> takeWhile (\<lambda>x. x \<noteq> c) (xs @ c # ys) = xs"
  by (induction xs) auto

lemma dropWhile_until:
  "c \<notin> set xs \<Longrightarrow> dropWhile (\<lambda>x. x \<noteq> c) (xs @ c # ys) = c # ys"
  by (induction xs) auto

lemma parseRepositoryTag_with_digest:
  assumes "CHR ''@'' \<in> set r"
  shows "parseRepositoryTag r = Inr (parseRepositoryTag_reference r)"
proof -
  from strings_Split_two [OF assms] obtain ps where
    "strings_Split r CHR ''@'' =
       takeWhile (\<lambda>x. x \<noteq> CHR ''@'') r #
       takeWhile (\<lambda>x. x \<noteq> CHR ''@'') (tl (dropWhile (\<lambda>x. x \<noteq> CHR ''@'') r)) # ps"
    by blast
  with assms show ?thesis
    by (simp add: parseRepositoryTag_def parseRepositoryTag_reference_def strings_Index_mem Let_def)
qed

lemma parseRepositoryTag_without_colon:
  assumes "CHR ''@'' \<notin> set r" and "CHR '':'' \<notin> set r"
  shows "parseRepositoryTag r = Inr (parseRepositoryTag_reference r)"
  using assms
  by (simp add: parseRepositoryTag_def parseRepositoryTag_reference_def strings_Index_mem
      strings_LastIndex_absent Let_def)

lemma parseRepositoryTag_with_colon:
  assumes no_at: "CHR ''@'' \<notin> set r" and colon: "CHR '':'' \<in> set r"
  shows "parseRepositoryTag r = Inr (parseRepositoryTag_reference r)"
proof -
  from colon obtain a t where r: "r = a @ CHR '':'' # t" and t: "CHR '':'' \<notin> set t"
    by (meson split_list_last)
  have rv: "rev r = rev t @ CHR '':'' # rev a" by (simp add: r)
  have t': "CHR '':'' \<notin> set (rev t)" using t by simp
  have idx: "strings_LastIndex r CHR '':'' = int (length a)"
    unfolding r by (rule strings_LastIndex_last [OF t])
  have "parseRepositoryTag r =
          Inr (if CHR ''/'' \<in> set t then (r, ''latest'') else (a, t))"
    using no_at
    by (simp add: parseRepositoryTag_def Let_def strings_Index_mem idx slice_from_def
        slice_to_def strings_Contains_mem nat_add_distrib) (simp add: r)
  moreover have "parseRepositoryTag_reference r =
          (if CHR ''/'' \<in> set t then (r, ''latest'') else (a, t))"
    using no_at colon
    by (simp add: parseRepositoryTag_reference_def Let_def rv takeWhile_until [OF t']
        dropWhile_until [OF t'])
  ultimately show ?thesis by simp
qed

lemma parseRepositoryTag_examples:
  "parseRepositoryTag ''nginx'' = Inr (''nginx'', ''latest'')"
  "parseRepositoryTag ''nginx:1.19'' = Inr (''nginx'', ''1.19'')"
  "parseRepositoryTag ''localhost:5000/foo'' = Inr (''localhost:5000/foo'', ''latest'')"
  "parseRepositoryTag ''repo@sha256:abcd'' = Inr (''repo'', ''sha256:abcd'')"
  "parseRepositoryTag ''a@b@c'' = Inr (''a'', ''b'')"
  by (simp_all add: parseRepositoryTag_def slice_from_def slice_to_def strings_Contains_def
      Let_def)

text \<open>
  Claim C6. \<open>parseRepositoryTag\<close> is total (it never panics: the result is always
  \<open>Inr\<close>) and equals the reference definition: with an \<open>@\<close> the first two pieces of the
  split at every \<open>@\<close>, the rest discarded; without an \<open>@\<close> and without a \<open>:\<close> the
  reference and \<open>latest\<close>; with a \<open>/\<close> after the last \<open>:\<close> the reference and \<open>latest\<close>;
  otherwise the two sides of the last \<open>:\<close>. The four examples of the specification hold,
  and so does the one with two \<open>@\<close>.
\<close>

theorem parseRepositoryTag_total_and_reference:
  "parseRepositoryTag r = Inr (parseRepositoryTag_reference r) \<and>
   parseRepositoryTag ''nginx'' = Inr (''nginx'', ''latest'') \<and>
   parseRepositoryTag ''nginx:1.19'' = Inr (''nginx'', ''1.19'') \<and>
   parseRepositoryTag ''localhost:5000/foo'' = Inr (''localhost:5000/foo'', ''latest'') \<and>
   parseRepositoryTag ''repo@sha256:abcd'' = Inr (''repo'', ''sha256:abcd'') \<and>
   parseRepositoryTag ''a@b@c'' = Inr (''a'', ''b'')"
  using parseRepositoryTag_with_digest [of r] parseRepositoryTag_without_colon [of r]
    parseRepositoryTag_with_colon [of r] parseRepositoryTag_examples
  by blast

section \<open>Properties of the auth-config translation\<close>

text \<open>
  For a present input both packages copy exactly the fields that are set and leave the
  others at the zero value.
\<close>

lemma getHyperAuthConfig_present:
  "manager_getHyperAuthConfig (Some a) =
     Some \<lparr>ta_Username = get_string (ka_Username a), ta_Password = get_string (ka_Password a),
           ta_Auth = get_string (ka_Auth a), ta_Serveraddress = get_string (ka_ServerAddress a),
           ta_Registrytoken = get_string (ka_RegistryToken a)\<rparr>"
  "hyper_getHyperAuthConfig (Some a) = manager_getHyperAuthConfig (Some a)"
  by (simp_all add: manager_getHyperAuthConfig_def hyper_getHyperAuthConfig_def
      types_AuthConfig_zero_def get_string_def Let_def split: option.splits)

text \<open>
  Claim C9. For an absent input the translation should return an empty provider config on
  both entry surfaces. Package hyper does; package manager returns \<open>nil\<close>, no config at
  all.
\<close>

theorem getHyperAuthConfig_nil_differs:
  "manager_getHyperAuthConfig None = None \<and>
   hyper_getHyperAuthConfig None = Some types_AuthConfig_zero"
  by (simp add: manager_getHyperAuthConfig_def hyper_getHyperAuthConfig_def)

section \<open>Properties of the timestamp parser\<close>

text \<open>Digits denote natural numbers, and neither \<open>:\<close> nor \<open>Z\<close> is a digit.\<close>

lemma digit_value_ge: "isDigit a \<Longrightarrow> 0 \<le> digit_value a"
  by (auto simp: isDigit_def digit_value_def)

lemma two_digit_ge: "two_digit t n \<Longrightarrow> 0 \<le> n"
proof -
  assume "two_digit t n"
  then obtain a b where "isDigit a" "isDigit b" "n = 10 * digit_value a + digit_value b"
    by (auto simp: two_digit_def)
  with digit_value_ge [of a] digit_value_ge [of b] show ?thesis by simp
qed

lemma one_digit_ge: "one_digit t n \<Longrightarrow> 0 \<le> n"
  by (auto simp: one_digit_def digit_value_ge)

lemma not_isDigit_colon: "\<not> isDigit CHR '':''"
  by (simp add: isDigit_def)

lemma not_isDigit_Z: "\<not> isDigit CHR ''Z''"
  by (simp add: isDigit_def)

text \<open>What each step of \<open>Parse\<close> accepts, as a text at the head of the value.\<close>

lemma stdLongYear_Some:
  "stdLongYear v = Some (n, r) \<longleftrightarrow> (\<exists>t. v = t @ r \<and> four_digit t n)"
  by (cases v rule: stdLongYear.cases) (auto simp: four_digit_def)

lemma skip_Some: "skip v [c] = Some r \<longleftrightarrow> v = c # r"
  by (cases v) auto

lemma getnum_fixed_Some:
  "getnum v True = Some (n, r) \<longleftrightarrow> (\<exists>t. v = t @ r \<and> two_digit t n)"
  by (cases "(v, True)" rule: getnum.cases) (auto simp: two_digit_def)

lemma getnum_colon_Some:
  "getnum v False = Some (n, CHR '':'' # r) \<longleftrightarrow>
     (\<exists>t. v = t @ CHR '':'' # r \<and> (two_digit t n \<or> one_digit t n))"
  by (cases "(v, False)" rule: getnum.cases)
     (auto simp: two_digit_def one_digit_def not_isDigit_colon Cons_eq_append_conv)

lemma dropWhile_digits_Z:
  "list_all isDigit ds \<Longrightarrow> dropWhile isDigit (ds @ ''Z'') = ''Z''"
  by (induction ds) (simp_all add: not_isDigit_Z)

lemma fractional_second_Z:
  "skip (fractional_second v) ''Z'' = Some [] \<longleftrightarrow>
     (\<exists>fr. v = fr @ ''Z'' \<and> (fr = [] \<or> fraction_text fr))"
proof
  assume a: "skip (fractional_second v) ''Z'' = Some []"
  show "\<exists>fr. v = fr @ ''Z'' \<and> (fr = [] \<or> fraction_text fr)"
  proof (cases v)
    case Nil
    with a show ?thesis by simp
  next
    case (Cons p w)
    note v = this
    show ?thesis
    proof (cases w)
      case Nil
      with a v show ?thesis by (simp split: if_splits)
    next
      case (Cons d s)
      show ?thesis
      proof (cases "commaOrPeriod p \<and> isDigit d")
        case True
        with a v Cons have dw: "dropWhile isDigit s = ''Z''" by (simp add: skip_Some)
        have "s = takeWhile isDigit s @ dropWhile isDigit s" by simp
        with dw have s: "s = takeWhile isDigit s @ ''Z''" by simp
        have all: "list_all isDigit (takeWhile isDigit s)"
          by (simp add: list_all_iff) (meson set_takeWhileD)
        have "v = (p # d # takeWhile isDigit s) @ ''Z''" using v Cons s by simp
        moreover have "fraction_text (p # d # takeWhile isDigit s)"
          using True all by (simp add: fraction_text_def)
        ultimately show ?thesis by blast
      next
        case False
        with a v Cons show ?thesis by (auto split: if_splits)
      qed
    qed
  qed
next
  assume "\<exists>fr. v = fr @ ''Z'' \<and> (fr = [] \<or> fraction_text fr)"
  then obtain fr where v: "v = fr @ ''Z''" and fr: "fr = [] \<or> fraction_text fr" by blast
  from fr show "skip (fractional_second v) ''Z'' = Some []"
  proof
    assume "fr = []" with v show ?thesis by simp
  next
    assume "fraction_text fr"
    then obtain p d ds where "fr = p # d # ds" "commaOrPeriod p" "isDigit d" "list_all isDigit ds"
      by (auto simp: fraction_text_def neq_Nil_conv)
    with v show ?thesis by (simp add: dropWhile_digits_Z)
  qed
qed

text \<open>
  \<open>Parse\<close> reads the fields \<open>f\<close> from a string exactly when the string is a timestamp text
  of \<open>f\<close> and \<open>f\<close> is valid.
\<close>

lemma parse_fields_Some:
  "parse_fields str = Some f \<longleftrightarrow> timestamp_text str f \<and> valid_fields f"
proof
  assume "parse_fields str = Some f"
  then obtain year month day hour minute sec v1 v2 v3 v4 v5 v6 v7 v8 v9 v10 v11 where
    p: "stdLongYear str = Some (year, v1)" "skip v1 ''-'' = Some v2"
       "getnum v2 True = Some (month, v3)" "skip v3 ''-'' = Some v4"
       "getnum v4 True = Some (day, v5)" "skip v5 ''T'' = Some v6"
       "getnum v6 False = Some (hour, v7)" "skip v7 '':'' = Some v8"
       "getnum v8 True = Some (minute, v9)" "skip v9 '':'' = Some v10"
       "getnum v10 True = Some (sec, v11)" "skip (fractional_second v11) ''Z'' = Some []"
    and r: "\<not> (month \<le> 0 \<or> 12 < month)" "\<not> (hour < 0 \<or> 24 \<le> hour)"
       "\<not> (minute < 0 \<or> 60 \<le> minute)" "\<not> (sec < 0 \<or> 60 \<le> sec)"
       "\<not> (day < 1 \<or> day > daysIn month year)"
    and f: "f = (year, month, day, hour, minute, sec)"
    by (auto simp: parse_fields_def bind_eq_Some_conv split: if_splits)
  from p(1) obtain YYYY where 1: "str = YYYY @ v1" "four_digit YYYY year"
    by (auto simp: stdLongYear_Some)
  from p(3) obtain MM where 2: "v2 = MM @ v3" "two_digit MM month"
    by (auto simp: getnum_fixed_Some)
  from p(5) obtain DD where 3: "v4 = DD @ v5" "two_digit DD day"
    by (auto simp: getnum_fixed_Some)
  from p(8) have v7: "v7 = CHR '':'' # v8" by (simp add: skip_Some)
  from p(7) v7 obtain hh where 4: "v6 = hh @ CHR '':'' # v8" "two_digit hh hour \<or> one_digit hh hour"
    by (auto simp: getnum_colon_Some)
  from p(9) obtain mm where 5: "v8 = mm @ v9" "two_digit mm minute"
    by (auto simp: getnum_fixed_Some)
  from p(11) obtain ss where 6: "v10 = ss @ v11" "two_digit ss sec"
    by (auto simp: getnum_fixed_Some)
  from p(12) obtain fr where 7: "v11 = fr @ ''Z''" "fr = [] \<or> fraction_text fr"
    by (auto simp: fractional_second_Z)
  from p(2,4,6,10) have s: "v1 = CHR ''-'' # v2" "v3 = CHR ''-'' # v4" "v5 = CHR ''T'' # v6"
      "v9 = CHR '':'' # v10"
    by (simp_all add: skip_Some)
  have "str = YYYY @ ''-'' @ MM @ ''-'' @ DD @ ''T'' @ hh @ '':'' @ mm @ '':'' @ ss @ fr @ ''Z''"
    using 1(1) 2(1) 3(1) 4(1) 5(1) 6(1) 7(1) s by simp
  with 1(2) 2(2) 3(2) 4(2) 5(2) 6(2) 7(2) f have "timestamp_text str f"
    unfolding timestamp_text_def by blast
  moreover from r f have "valid_fields f" by (simp add: valid_fields_def)
  ultimately show "timestamp_text str f \<and> valid_fields f" ..
next
  assume a: "timestamp_text str f \<and> valid_fields f"
  then obtain YYYY MM DD hh mm ss fr year month day hour minute sec where
    str: "str = YYYY @ ''-'' @ MM @ ''-'' @ DD @ ''T'' @ hh @ '':'' @ mm @ '':'' @ ss @ fr @ ''Z''"
    and t: "four_digit YYYY year" "two_digit MM month" "two_digit DD day"
       "two_digit hh hour \<or> one_digit hh hour" "two_digit mm minute" "two_digit ss sec"
       "fr = [] \<or> fraction_text fr"
    and f: "f = (year, month, day, hour, minute, sec)"
    unfolding timestamp_text_def by blast
  from a f have v: "1 \<le> month" "month \<le> 12" "1 \<le> day" "day \<le> daysIn month year"
      "hour < 24" "minute < 60" "sec < 60"
    by (simp_all add: valid_fields_def)
  have nn: "0 \<le> hour" "0 \<le> minute" "0 \<le> sec"
    using t(4,5,6) by (auto dest: two_digit_ge one_digit_ge)
  have g1: "stdLongYear str =
      Some (year, ''-'' @ MM @ ''-'' @ DD @ ''T'' @ hh @ '':'' @ mm @ '':'' @ ss @ fr @ ''Z'')"
    unfolding stdLongYear_Some str using t(1) by blast
  have g2: "getnum (MM @ ''-'' @ DD @ ''T'' @ hh @ '':'' @ mm @ '':'' @ ss @ fr @ ''Z'') True =
      Some (month, ''-'' @ DD @ ''T'' @ hh @ '':'' @ mm @ '':'' @ ss @ fr @ ''Z'')"
    unfolding getnum_fixed_Some using t(2) by blast
  have g3: "getnum (DD @ ''T'' @ hh @ '':'' @ mm @ '':'' @ ss @ fr @ ''Z'') True =
      Some (day, ''T'' @ hh @ '':'' @ mm @ '':'' @ ss @ fr @ ''Z'')"
    unfolding getnum_fixed_Some using t(3) by blast
  have g4: "getnum (hh @ CHR '':'' # mm @ '':'' @ ss @ fr @ ''Z'') False =
      Some (hour, CHR '':'' # mm @ '':'' @ ss @ fr @ ''Z'')"
    unfolding getnum_colon_Some using t(4) by blast
  have g5: "getnum (mm @ '':'' @ ss @ fr @ ''Z'') True = Some (minute, '':'' @ ss @ fr @ ''Z'')"
    unfolding getnum_fixed_Some using t(5) by blast
  have g6: "getnum (ss @ fr @ ''Z'') True = Some (sec, fr @ ''Z'')"
    unfolding getnum_fixed_Some using t(6) by blast
  have g7: "skip (fractional_second (fr @ ''Z'')) ''Z'' = Some []"
    unfolding fractional_second_Z using t(7) by blast
  show "parse_fields str = Some f"
    using g1 g2 g3 g4 g5 g6 g7 v nn f by (simp add: parse_fields_def)
qed

text \<open>
  Every string of the shape \<open>YYYY-MM-DDThh:mm:ssZ\<close> has twenty bytes and is a timestamp
  text.
\<close>

lemma layout_shape_length: "layout_shape str \<Longrightarrow> length str = 20"
  by (auto simp: layout_shape_def four_digit_def two_digit_def)

lemma layout_shape_timestamp_text: "layout_shape str \<Longrightarrow> \<exists>f. timestamp_text str f"
  unfolding layout_shape_def timestamp_text_def
  by (metis append_Nil)

text \<open>
  The all-zero date is normalised to 30 November of the year \<open>-1\<close>; and \<open>parseTimeString\<close>
  over the library.
\<close>

lemma go_Date_zero: "go_Date 0 0 0 0 0 0 0 local = - 62169984000 - local"
  by (simp add: go_Date_def time_norm_def daysSinceEpoch_def daysBefore_def isLeap_def Let_def)

text \<open>
  For fields in range the normalisation changes nothing: the Unix seconds are the days to
  the date and the seconds of the day.
\<close>

lemma go_Date_in_range:
  "1 \<le> month \<Longrightarrow> month \<le> 12 \<Longrightarrow> 0 \<le> hour \<Longrightarrow> hour < 24 \<Longrightarrow>
   0 \<le> minute \<Longrightarrow> minute < 60 \<Longrightarrow> 0 \<le> sec \<Longrightarrow> sec < 60 \<Longrightarrow>
   go_Date year month day hour minute sec 0 0 =
     86400 * (daysSinceEpoch year + daysBefore ! nat (month - 1) +
              (if isLeap year \<and> 3 \<le> month then 1 else 0) + (day - 1)) +
     3600 * hour + 60 * minute + sec"
  by (simp add: go_Date_def time_norm_def Let_def)

lemma parseTimeString_go_time:
  "str \<noteq> [] \<Longrightarrow>
   parseTimeString (go_time local) str =
     (case parse_fields str of
        None \<Rightarrow> (zero_Time, Some (Error ''parsing time''))
      | Some (year, month, day, hour, minute, sec) \<Rightarrow>
          (go_Date year month day hour minute sec 0 0, None))"
  by (simp add: parseTimeString_def go_time_def go_Parse_def Let_def split: option.splits)

lemmas go_time_eval =
  parseTimeString_def go_time_def go_Parse_def parse_fields_def isDigit_def digit_value_def
  commaOrPeriod_def daysIn_def daysBefore_def isLeap_def go_Date_def time_norm_def
  daysSinceEpoch_def zero_Time_def Let_def

text \<open>
  A string of the shape \<open>YYYY-MM-DDThh:mm:ssZ\<close> whose fields are out of range, here the
  30th of February, is an error.
\<close>

lemma layout_shape_out_of_range:
  "layout_shape ''2016-02-30T12:00:00Z'' \<and>
   parseTimeString (go_time 0) ''2016-02-30T12:00:00Z'' =
     (- 62135596800, Some (Error ''parsing time''))"
proof -
  have "four_digit ''2016'' 2016" "two_digit ''02'' 2" "two_digit ''30'' 30"
       "two_digit ''12'' 12" "two_digit ''00'' 0"
    by (simp_all add: four_digit_def two_digit_def isDigit_def digit_value_def)
  moreover have "''2016-02-30T12:00:00Z'' =
      ''2016'' @ ''-'' @ ''02'' @ ''-'' @ ''30'' @ ''T'' @ ''12'' @ '':'' @ ''00'' @ '':'' @ ''00'' @ ''Z''"
    by simp
  ultimately have "layout_shape ''2016-02-30T12:00:00Z''"
    unfolding layout_shape_def by blast
  moreover have "parseTimeString (go_time 0) ''2016-02-30T12:00:00Z'' =
     (- 62135596800, Some (Error ''parsing time''))"
    by (simp add: go_time_eval)
  ultimately show ?thesis by simp
qed

text \<open>
  Claim C8, amended. For the empty string \<open>parseTimeString\<close> returns the Unix seconds of the
  all-zero date in local time, \<open>-62169984000\<close> less the offset of the local zone, and no
  error. For a non-empty string it returns an error exactly when the string is not a
  timestamp text with valid fields: a text \<open>YYYY-MM-DDThh:mm:ssZ\<close> in which the hour may
  have one digit and a fractional second may follow the seconds, with a month from 1 to 12,
  a day of that month, an hour below 24, and a minute and a second below 60. For a
  timestamp text with valid fields it returns the Unix seconds of that date and time in UTC
  and no error.
\<close>

theorem parseTimeString_timestamp_texts:
  "parseTimeString (go_time local) [] = (- 62169984000 - local, None) \<and>
   (\<forall>str. str \<noteq> [] \<longrightarrow>
      (snd (parseTimeString (go_time local) str) \<noteq> None) =
      (\<not> (\<exists>f. timestamp_text str f \<and> valid_fields f))) \<and>
   (\<forall>str year month day hour minute sec.
      timestamp_text str (year, month, day, hour, minute, sec) \<and>
      valid_fields (year, month, day, hour, minute, sec) \<longrightarrow>
      parseTimeString (go_time local) str = (go_Date year month day hour minute sec 0 0, None))"
proof (intro conjI allI impI)
  show "parseTimeString (go_time local) [] = (- 62169984000 - local, None)"
    by (simp add: parseTimeString_def go_time_def go_Date_zero)
next
  fix str :: string
  assume ne: "str \<noteq> []"
  show "(snd (parseTimeString (go_time local) str) \<noteq> None) =
      (\<not> (\<exists>f. timestamp_text str f \<and> valid_fields f))"
  proof (cases "parse_fields str")
    case None
    then have "\<not> (\<exists>f. timestamp_text str f \<and> valid_fields f)"
      by (simp add: parse_fields_Some [symmetric])
    with None ne show ?thesis by (simp add: parseTimeString_go_time)
  next
    case (Some f)
    then have "timestamp_text str f \<and> valid_fields f" by (simp add: parse_fields_Some)
    then have "\<exists>f. timestamp_text str f \<and> valid_fields f" by blast
    with Some ne show ?thesis by (simp add: parseTimeString_go_time split: prod.splits)
  qed
next
  fix str :: string and year month day hour minute sec :: int
  assume a: "timestamp_text str (year, month, day, hour, minute, sec) \<and>
      valid_fields (year, month, day, hour, minute, sec)"
  then have p: "parse_fields str = Some (year, month, day, hour, minute, sec)"
    by (simp add: parse_fields_Some)
  then have "str \<noteq> []" by (auto simp: parse_fields_def)
  with p show "parseTimeString (go_time local) str =
      (go_Date year month day hour minute sec 0 0, None)"
    by (simp add: parseTimeString_go_time)
qed

text \<open>
  On a host one hour east of UTC: the empty string; noon of 1 July 2016, which is a
  timestamp text with valid fields; and a string that is none.
\<close>

theorem parseTimeString_timestamp_texts_witness:
  "parseTimeString (go_time 3600) [] = (- 62169987600, None) \<and>
   timestamp_text ''2016-07-01T12:00:00Z'' (2016, 7, 1, 12, 0, 0) \<and>
   valid_fields (2016, 7, 1, 12, 0, 0) \<and>
   parseTimeString (go_time 3600) ''2016-07-01T12:00:00Z'' = (1467374400, None) \<and>
   \<not> (\<exists>f. timestamp_text ''yesterday'' f \<and> valid_fields f) \<and>
   parseTimeString (go_time 3600) ''yesterday'' = (- 62135596800, Some (Error ''parsing time''))"
proof -
  have "parse_fields ''2016-07-01T12:00:00Z'' = Some (2016, 7, 1, 12, 0, 0)"
    by (simp add: go_time_eval)
  then have ok: "timestamp_text ''2016-07-01T12:00:00Z'' (2016, 7, 1, 12, 0, 0) \<and>
      valid_fields (2016, 7, 1, 12, 0, 0)"
    by (simp add: parse_fields_Some)
  have date: "go_Date 2016 7 1 12 0 0 0 0 = 1467374400"
    by (simp add: go_time_eval)
  have bad: "parseTimeString (go_time 3600) ''yesterday'' =
      (- 62135596800, Some (Error ''parsing time''))"
    by (simp add: go_time_eval)
  from parseTimeString_timestamp_texts [of 3600] ok date bad show ?thesis
    by (auto simp del: One_nat_def)
qed

text \<open>
  With ``exactly when the input is not of the shape \<open>YYYY-MM-DDThh:mm:ssZ\<close>'' the claim
  fails: a timestamp with a fractional second and one with an hour of one digit are not of
  that shape, and both are parsed without an error.
\<close>

theorem fractional_second_counterexample:
  "\<not> layout_shape ''2016-07-01T12:00:00.5Z'' \<and>
   parseTimeString (go_time 0) ''2016-07-01T12:00:00.5Z'' = (1467374400, None) \<and>
   \<not> layout_shape ''2016-07-01T9:00:00Z'' \<and>
   parseTimeString (go_time 0) ''2016-07-01T9:00:00Z'' = (1467363600, None)"
proof -
  have "\<not> layout_shape ''2016-07-01T12:00:00.5Z''"
    using layout_shape_length [of "''2016-07-01T12:00:00.5Z''"] by auto
  moreover have "\<not> layout_shape ''2016-07-01T9:00:00Z''"
    using layout_shape_length [of "''2016-07-01T9:00:00Z''"] by auto
  moreover have "parseTimeString (go_time 0) ''2016-07-01T12:00:00.5Z'' = (1467374400, None)"
    by (simp add: go_time_eval)
  moreover have "parseTimeString (go_time 0) ''2016-07-01T9:00:00Z'' = (1467363600, None)"
    by (simp add: go_time_eval)
  ultimately show ?thesis by simp
qed

section \<open>Properties of the lifecycle bridge\<close>

text \<open>
  Claim C2. For every container id, timeout, provider and world, \<open>StopContainer\<close> and
  \<open>RemoveContainer\<close> succeed on both surfaces and return the world as it was: no call is
  added to the trace and the provider's state is the same. Stopping twice succeeds twice.
\<close>

theorem StopContainer_RemoveContainer_are_noops:
  "Client_StopContainer P c t w = (None, w) \<and>
   Client_RemoveContainer P c w = (None, w) \<and>
   HyperRuntime_StopContainer P c t w = (None, w) \<and>
   HyperRuntime_RemoveContainer P c w = (None, w) \<and>
   KubeHyperManager_StopContainer P sreq w = ((Some StopContainerResponse, None), w) \<and>
   KubeHyperManager_RemoveContainer P rreq w = ((Some RemoveContainerResponse, None), w) \<and>
   (case HyperRuntime_StopContainer P c t w of
      (first, w1) \<Rightarrow> (first, HyperRuntime_StopContainer P c t w1)) = (None, None, w) \<and>
   (case KubeHyperManager_StopContainer P sreq w of
      (first, w1) \<Rightarrow> (first, KubeHyperManager_StopContainer P sreq w1)) =
     ((Some StopContainerResponse, None), (Some StopContainerResponse, None), w)"
  by (simp add: Client_StopContainer_def Client_RemoveContainer_def
      HyperRuntime_StopContainer_def HyperRuntime_RemoveContainer_def
      KubeHyperManager_StopContainer_def KubeHyperManager_RemoveContainer_def)

lemma rpc_result:
  "rpc c f w = (fst (f (prov w)),
     \<lparr>prov = snd (f (prov w)), trace = trace w @ [(c, failure (fst (f (prov w))))]\<rparr>)"
  by (simp add: rpc_def split: prod.splits)

text \<open>
  On both surfaces the first call of \<open>CreatePodSandbox\<close> is the creation of the pod, and the
  specification it carries holds the translated resource pair.
\<close>

lemma CreatePodSandbox_sends_resource:
  "up_Resource (makeUserPod oor config) = Some (makeUserResource oor config) \<and>
   (\<exists>r t. trace (snd (HyperRuntime_CreatePodSandbox P oor config w)) =
      trace w @ (PodCreate_call (makeUserPod oor config), r) # t) \<and>
   (\<exists>r t. trace (snd (KubeHyperManager_CreatePodSandbox P oor \<lparr>cpsq_Config = config\<rparr> w)) =
      trace w @ (PodCreate_call (makeUserPod oor config), r) # t)"
  by (simp add: makeUserPod_def HyperRuntime_CreatePodSandbox_def
      KubeHyperManager_CreatePodSandbox_def Client_CreatePod_def Client_StartPod_def rpc_result
      Let_def split: sum.splits)




section \<open>Properties of the listings\<close>

lemma Client_GetContainerInfo_result:
  "Client_GetContainerInfo P c w =
     (fst (ContainerInfo_rpc P c (prov w)),
      \<lparr>prov = snd (ContainerInfo_rpc P c (prov w)),
        trace = trace w @ [(ContainerInfo_call c, failure (fst (ContainerInfo_rpc P c (prov w))))]\<rparr>)"
  by (simp add: Client_GetContainerInfo_def rpc_result)

lemma ListContainers_loop_trace:
  "\<exists>t. trace (snd (ListContainers_loop P f cs acc w)) = trace w @ t \<and>
       (\<forall>c e. (c, Some e) \<in> set t \<longrightarrow>
          fst (ListContainers_loop P f cs acc w) = (None, Some e)) \<and>
       ((\<exists>l. fst (ListContainers_loop P f cs acc w) = (Some l, None)) \<or>
        (\<exists>e. fst (ListContainers_loop P f cs acc w) = (None, Some e)))"
proof (induction cs arbitrary: acc w)
  case Nil
  show ?case by simp
next
  case (Cons c cs)
  let ?name = "strings_TrimPrefix (clr_ContainerName c) ''/''"
  let ?skip = "(case f of
            None \<Rightarrow> False
          | Some f \<Rightarrow>
              (cf_Name f \<noteq> None \<and> ?name \<noteq> get_string (cf_Name f)) \<or>
              (cf_Id f \<noteq> None \<and> clr_ContainerID c \<noteq> get_string (cf_Id f)) \<or>
              (cf_PodSandboxId f \<noteq> None \<and> clr_PodID c \<noteq> get_string (cf_PodSandboxId f)))"
  show ?case
  proof (cases ?skip)
    case True
    then have "ListContainers_loop P f (c # cs) acc w = ListContainers_loop P f cs acc w"
      by (simp add: Let_def)
    with Cons.IH [of acc w] show ?thesis by simp
  next
    case False
    obtain r p where rp: "ContainerInfo_rpc P (clr_ContainerID c) (prov w) = (r, p)"
      by (cases "ContainerInfo_rpc P (clr_ContainerID c) (prov w)")
    let ?w1 = "\<lparr>prov = p, trace = trace w @ [(ContainerInfo_call (clr_ContainerID c), failure r)]\<rparr>"
    have info: "Client_GetContainerInfo P (clr_ContainerID c) w = (r, ?w1)"
      by (simp add: Client_GetContainerInfo_result rp)
    show ?thesis
    proof (cases r)
      case (Inl err)
      then have "ListContainers_loop P f (c # cs) acc w = ((None, Some err), ?w1)"
        using False info by (simp add: Let_def)
      then show ?thesis using Inl by (simp add: failure_def)
    next
      case (Inr i)
      then obtain acc' where
        step: "ListContainers_loop P f (c # cs) acc w = ListContainers_loop P f cs acc' ?w1"
        using False info by (simp add: Let_def) metis
      from Cons.IH [of acc' ?w1] obtain t where
        t: "trace (snd (ListContainers_loop P f cs acc' ?w1)) = trace ?w1 @ t"
        and fail: "\<forall>c e. (c, Some e) \<in> set t \<longrightarrow>
           fst (ListContainers_loop P f cs acc' ?w1) = (None, Some e)"
        and shape: "(\<exists>l. fst (ListContainers_loop P f cs acc' ?w1) = (Some l, None)) \<or>
           (\<exists>e. fst (ListContainers_loop P f cs acc' ?w1) = (None, Some e))"
        by blast
      have "trace (snd (ListContainers_loop P f (c # cs) acc w)) =
          trace w @ ((ContainerInfo_call (clr_ContainerID c), None) # t)"
        unfolding step t using Inr by (simp add: failure_def)
      moreover have "\<forall>c' e. (c', Some e) \<in> set ((ContainerInfo_call (clr_ContainerID c), None) # t) \<longrightarrow>
          fst (ListContainers_loop P f (c # cs) acc w) = (None, Some e)"
        unfolding step using fail by simp
      ultimately show ?thesis using shape unfolding step by blast
    qed
  qed
qed

lemma HyperRuntime_ListContainers_trace:
  "\<exists>t. trace (snd (HyperRuntime_ListContainers P f w)) = trace w @ t \<and>
       (\<forall>c e. (c, Some e) \<in> set t \<longrightarrow>
          fst (HyperRuntime_ListContainers P f w) = (None, Some e)) \<and>
       ((\<exists>l. fst (HyperRuntime_ListContainers P f w) = (Some l, None)) \<or>
        (\<exists>e. fst (HyperRuntime_ListContainers P f w) = (None, Some e)))"
proof -
  obtain r p where rp: "ContainerList_rpc P False (prov w) = (r, p)"
    by (cases "ContainerList_rpc P False (prov w)")
  let ?w1 = "\<lparr>prov = p, trace = trace w @ [(ContainerList_call False, failure r)]\<rparr>"
  have list: "Client_GetContainerList P False w = (r, ?w1)"
    by (simp add: Client_GetContainerList_def rpc_result rp)
  show ?thesis
  proof (cases r)
    case (Inl err)
    then have "HyperRuntime_ListContainers P f w = ((None, Some err), ?w1)"
      using list by (simp add: HyperRuntime_ListContainers_def)
    then show ?thesis using Inl by (simp add: failure_def)
  next
    case (Inr cl)
    then have step: "HyperRuntime_ListContainers P f w = ListContainers_loop P f cl [] ?w1"
      using list by (simp add: HyperRuntime_ListContainers_def)
    from ListContainers_loop_trace [of P f cl "[]" ?w1] obtain t where
      t: "trace (snd (ListContainers_loop P f cl [] ?w1)) = trace ?w1 @ t"
      and fail: "\<forall>c e. (c, Some e) \<in> set t \<longrightarrow>
         fst (ListContainers_loop P f cl [] ?w1) = (None, Some e)"
      and shape: "(\<exists>l. fst (ListContainers_loop P f cl [] ?w1) = (Some l, None)) \<or>
         (\<exists>e. fst (ListContainers_loop P f cl [] ?w1) = (None, Some e))"
      by blast
    have "trace (snd (HyperRuntime_ListContainers P f w)) =
        trace w @ ((ContainerList_call False, None) # t)"
      unfolding step t using Inr by (simp add: failure_def)
    moreover have "\<forall>c e. (c, Some e) \<in> set ((ContainerList_call False, None) # t) \<longrightarrow>
        fst (HyperRuntime_ListContainers P f w) = (None, Some e)"
      unfolding step using fail by simp
    ultimately show ?thesis using shape unfolding step by blast
  qed
qed

lemma KubeHyperManager_ListContainers_runtime:
  "snd (KubeHyperManager_ListContainers P req w) =
     snd (HyperRuntime_ListContainers P (lcq_Filter req) w) \<and>
   fst (KubeHyperManager_ListContainers P req w) =
     (case fst (HyperRuntime_ListContainers P (lcq_Filter req) w) of
        (Some containers, err) \<Rightarrow> (Some \<lparr>lcp_Containers = containers\<rparr>, None)
      | (None, err) \<Rightarrow> (None, err))"
  by (simp add: KubeHyperManager_ListContainers_def HyperRuntime_ListContainers_def
      split: prod.splits sum.splits option.splits)

text \<open>
  Claim C7. For every provider, world and filter: if an info lookup that \<open>ListContainers\<close>
  issues fails with error \<open>e\<close>, the result is \<open>(nil, e)\<close> on both surfaces, an error and
  no list, not even of the containers looked up before. (A container that the name, id or
  pod filter drops is not looked up at all.)
\<close>

theorem ListContainers_lookup_failure_aborts:
  assumes "(ContainerInfo_call cid, Some e) \<in>
     set (drop (length (trace w)) (trace (snd (HyperRuntime_ListContainers P f w))))"
  shows "fst (HyperRuntime_ListContainers P f w) = (None, Some e) \<and>
         fst (KubeHyperManager_ListContainers P \<lparr>lcq_Filter = f\<rparr> w) = (None, Some e) \<and>
         snd (KubeHyperManager_ListContainers P \<lparr>lcq_Filter = f\<rparr> w) =
           snd (HyperRuntime_ListContainers P f w)"
proof -
  from HyperRuntime_ListContainers_trace [of P f w] obtain t where
    t: "trace (snd (HyperRuntime_ListContainers P f w)) = trace w @ t"
    and fail: "\<forall>c e. (c, Some e) \<in> set t \<longrightarrow>
       fst (HyperRuntime_ListContainers P f w) = (None, Some e)"
    by blast
  from assms have "(ContainerInfo_call cid, Some e) \<in> set t" by (simp add: t)
  with fail have r: "fst (HyperRuntime_ListContainers P f w) = (None, Some e)" by blast
  with KubeHyperManager_ListContainers_runtime [of P "\<lparr>lcq_Filter = f\<rparr>" w]
  show ?thesis by simp
qed

text \<open>
  The scenario of the specification: the third of five lookups fails; the fourth and the
  fifth are not issued.
\<close>

lemma sample_ListContainers:
  "HyperRuntime_ListContainers sample_provider None sample_world =
     ((None, Some (Error ''no such container'')),
      \<lparr>prov = 4, trace =
         [(ContainerList_call False, None), (ContainerInfo_call ''c1'', None),
          (ContainerInfo_call ''c2'', None),
          (ContainerInfo_call ''c3'', Some (Error ''no such container''))]\<rparr>)"
  by (simp add: HyperRuntime_ListContainers_def Client_GetContainerList_def
      Client_GetContainerInfo_def rpc_result failure_def sample_provider_def sample_world_def
      sample_listing_def sample_info_def strings_TrimPrefix_def toKubeContainerState_def Let_def)

theorem ListContainers_lookup_failure_aborts_witness:
  "(ContainerInfo_call ''c3'', Some (Error ''no such container'')) \<in>
     set (drop (length (trace sample_world))
       (trace (snd (HyperRuntime_ListContainers sample_provider None sample_world)))) \<and>
   fst (HyperRuntime_ListContainers sample_provider None sample_world) =
     (None, Some (Error ''no such container'')) \<and>
   fst (KubeHyperManager_ListContainers sample_provider \<lparr>lcq_Filter = None\<rparr> sample_world) =
     (None, Some (Error ''no such container'')) \<and>
   map fst (trace (snd (HyperRuntime_ListContainers sample_provider None sample_world))) =
     [ContainerList_call False, ContainerInfo_call ''c1'', ContainerInfo_call ''c2'',
      ContainerInfo_call ''c3'']"
proof -
  have h: "(ContainerInfo_call ''c3'', Some (Error ''no such container'')) \<in>
     set (drop (length (trace sample_world))
       (trace (snd (HyperRuntime_ListContainers sample_provider None sample_world))))"
    by (simp add: sample_ListContainers) (simp add: sample_world_def)
  from ListContainers_lookup_failure_aborts [OF h] h show ?thesis
    by (simp add: sample_ListContainers)
qed


text \<open>
  Without a filter every listed container is looked up until the first failure: if the
  lookup of some listed container fails in every state of the provider, the listing ends
  in an error.
\<close>

lemma ListContainers_loop_unfiltered_failure:
  assumes "c \<in> set cs"
    and "\<forall>p. \<exists>e. fst (ContainerInfo_rpc P (clr_ContainerID c) p) = Inl e"
  shows "\<exists>e. fst (ListContainers_loop P None cs acc w) = (None, Some e)"
  using assms(1)
proof (induction cs arbitrary: acc w)
  case Nil
  then show ?case by simp
next
  case (Cons x xs)
  obtain r p where rp: "ContainerInfo_rpc P (clr_ContainerID x) (prov w) = (r, p)"
    by (cases "ContainerInfo_rpc P (clr_ContainerID x) (prov w)")
  show ?case
  proof (cases r)
    case (Inl err)
    then show ?thesis using rp
      by (simp add: Let_def Client_GetContainerInfo_result)
  next
    case (Inr i)
    with rp assms(2) have "x \<noteq> c"
      by (metis fst_conv sum.distinct(1))
    with Cons.prems have "c \<in> set xs" by simp
    from Cons.IH [OF this] show ?thesis using rp Inr
      by (simp add: Let_def Client_GetContainerInfo_result)
  qed
qed

lemma ListContainers_unfiltered_failure:
  assumes "ContainerList_rpc P False (prov w) = (Inr cl, p)"
    and "c \<in> set cl"
    and "\<forall>p. \<exists>e. fst (ContainerInfo_rpc P (clr_ContainerID c) p) = Inl e"
  shows "\<exists>e. fst (HyperRuntime_ListContainers P None w) = (None, Some e)"
  using assms(1) ListContainers_loop_unfiltered_failure [OF assms(2,3)]
  by (simp add: HyperRuntime_ListContainers_def Client_GetContainerList_def rpc_result)

lemma inList_mem: "inList i l = (i \<in> set l)"
  by (induction l) auto

lemma ListImages_loop_filter:
  "ListImages_loop (Some f) images results =
     results @
     map (\<lambda>img. \<lparr>ki_Id = Some (ii_Id img), ki_RepoTags = ii_RepoTags img,
                  ki_RepoDigests = ii_RepoDigests img,
                  ki_Size = Some (uint64 (ii_VirtualSize img))\<rparr>)
       (filter (\<lambda>img. normalized_filter (GetImage (if_Image f)) \<in> set (ii_RepoTags img))
          images)"
  by (induction images arbitrary: results)
    (simp_all add: Let_def inList_mem strings_Contains_def strings_Index_mem
      normalized_filter_def)

lemma ListImages_loop_nil_filter:
  "ListImages_loop None images results =
     results @
     map (\<lambda>img. \<lparr>ki_Id = Some (ii_Id img), ki_RepoTags = ii_RepoTags img,
                  ki_RepoDigests = ii_RepoDigests img,
                  ki_Size = Some (uint64 (ii_VirtualSize img))\<rparr>) images"
  by (induction images arbitrary: results) simp_all

text \<open>
  Claim C10. When the provider lists its images, \<open>ListImages\<close> with a filter keeps, in
  order, exactly the images whose \<open>RepoTags\<close> contain the normalised filter reference as a
  whole string, on both surfaces; the reference gets \<open>:latest\<close> appended iff it has no
  colon. The image id and the digests play no part.
\<close>

theorem ListImages_keeps_exact_repoTag_matches:
  assumes "ImageList_rpc P (prov w) = (Inr images, p)"
  shows "fst (HyperRuntime_ListImages P (Some f) w) =
           (Some (map (\<lambda>img. \<lparr>ki_Id = Some (ii_Id img), ki_RepoTags = ii_RepoTags img,
                             ki_RepoDigests = ii_RepoDigests img,
                             ki_Size = Some (uint64 (ii_VirtualSize img))\<rparr>)
                  (filter (\<lambda>img. normalized_filter (GetImage (if_Image f)) \<in>
                             set (ii_RepoTags img)) images)), None) \<and>
         fst (KubeHyperManager_ListImages P \<lparr>liq_Filter = Some f\<rparr> w) =
           (Some \<lparr>lip_Images =
              map (\<lambda>img. \<lparr>ki_Id = Some (ii_Id img), ki_RepoTags = ii_RepoTags img,
                           ki_RepoDigests = ii_RepoDigests img,
                           ki_Size = Some (uint64 (ii_VirtualSize img))\<rparr>)
                (filter (\<lambda>img. normalized_filter (GetImage (if_Image f)) \<in>
                           set (ii_RepoTags img)) images)\<rparr>, None) \<and>
         normalized_filter (GetImage (if_Image f)) =
           (if CHR '':'' \<in> set (GetImage (if_Image f)) then GetImage (if_Image f)
            else GetImage (if_Image f) @ '':latest'')"
  using assms
  by (simp add: HyperRuntime_ListImages_def KubeHyperManager_ListImages_def
      Client_GetImageList_def rpc_result ListImages_loop_filter normalized_filter_def)

text \<open>
  The filter \<open>nginx\<close> keeps the image tagged \<open>nginx:latest\<close> and not the one whose id is
  \<open>nginx\<close>; the filter \<open>localhost:5000/foo\<close> is left as it is and keeps only the image
  with that very tag, not \<open>localhost:5000/foo:latest\<close>.
\<close>

theorem ListImages_keeps_exact_repoTag_matches_witness:
  "fst (HyperRuntime_ListImages sample_provider (Some (image_filter ''nginx'')) sample_world) =
     (Some [\<lparr>ki_Id = Some ''id-2'', ki_RepoTags = [''nginx:latest'', ''nginx:1.19''],
             ki_RepoDigests = [], ki_Size = Some 20\<rparr>], None) \<and>
   fst (HyperRuntime_ListImages sample_provider (Some (image_filter ''localhost:5000/foo''))
          sample_world) =
     (Some [\<lparr>ki_Id = Some ''id-4'', ki_RepoTags = [''localhost:5000/foo''],
             ki_RepoDigests = [], ki_Size = Some 40\<rparr>], None) \<and>
   normalized_filter ''nginx'' = ''nginx:latest'' \<and>
   normalized_filter ''localhost:5000/foo'' = ''localhost:5000/foo''"
proof -
  have h: "ImageList_rpc sample_provider (prov sample_world) = (Inr sample_images, 1)"
    by (simp add: sample_provider_def sample_world_def)
  from ListImages_keeps_exact_repoTag_matches [OF h, of "image_filter ''nginx''"]
    ListImages_keeps_exact_repoTag_matches [OF h, of "image_filter ''localhost:5000/foo''"]
  show ?thesis
    by (simp add: image_filter_def GetImage_def get_string_def normalized_filter_def
        sample_images_def uint64_def)
qed

end
